theory Spec2Isabelle
  imports Main
begin

section \<open>The build action of the Nest command-line interface\<close>

text \<open>
  A shallow embedding of \<^verbatim>\<open>src/actions/build.action.ts\<close>: the class \<^verbatim>\<open>BuildAction\<close> with
  its methods \<^verbatim>\<open>handle\<close>, \<^verbatim>\<open>runBuild\<close> and \<^verbatim>\<open>getWebpackConfigFactoryByPath\<close>.
  The collaborators the class only calls (configuration loader, tsconfig provider,
  workspace utilities, assets manager, the three compilers, Node's \<^verbatim>\<open>require\<close>,
  \<^verbatim>\<open>path.join\<close>, \<^verbatim>\<open>process.cwd\<close>, \<^verbatim>\<open>chalk\<close>) are parameters of the model; every call of
  one is recorded in a trace, and every exception is a value.
\<close>

subsection \<open>JavaScript values\<close>

text \<open>
  The values that flow through the action at run time. TypeScript's casts (\<^verbatim>\<open>as string\<close>)
  and non-null assertions (\<^verbatim>\<open>!\<close>) are erased by the compiler, so an option value, a
  configuration document or a resolved setting is whatever value is there. Objects are
  association lists whose first binding of a key is the property's value; they hold
  data, so no property of one is callable. Numbers are integers: a configuration
  document and a command line hold no \<^verbatim>\<open>NaN\<close>. A symbol carries its description.
\<close>

datatype jsval =
    Undefined
  | Null
  | Bool bool
  | Num int
  | Str string
  | Symbol string
  | Obj "(string \<times> jsval) list"

text \<open>The conversion to boolean applied by \<^verbatim>\<open>if\<close>, \<^verbatim>\<open>!!\<close>, \<^verbatim>\<open>&&\<close> and \<^verbatim>\<open>||\<close>.\<close>

fun truthy :: "jsval \<Rightarrow> bool" where
  "truthy Undefined = False"
| "truthy Null = False"
| "truthy (Bool b) = b"
| "truthy (Num n) = (n \<noteq> 0)"
| "truthy (Str s) = (s \<noteq> [])"
| "truthy (Symbol d) = True"
| "truthy (Obj fs) = True"

text \<open>\<^verbatim>\<open>a || b\<close> on values: the operand that decides is the result.\<close>

definition js_or :: "jsval \<Rightarrow> jsval \<Rightarrow> jsval" where
  "js_or a b = (if truthy a then a else b)"

text \<open>
  Thrown values. \<^verbatim>\<open>Error m\<close> is an instance of \<^verbatim>\<open>Error\<close> thrown by a collaborator,
  with the value \<^verbatim>\<open>m\<close> of its property \<^verbatim>\<open>message\<close>, which any code may have assigned.
  \<^verbatim>\<open>TypeError s\<close> is a \<^verbatim>\<open>TypeError\<close> raised by the engine, an instance of \<^verbatim>\<open>Error\<close>
  too, with its message. \<^verbatim>\<open>Thrown v\<close> is any other value given to \<^verbatim>\<open>throw\<close>. The
  messages of the errors the engine raises follow V8's wording; no property below
  depends on their text.
\<close>

datatype js_error =
    Error jsval
  | TypeError string
  | Thrown jsval

fun instanceof_Error :: "js_error \<Rightarrow> bool" where
  "instanceof_Error (Error m) = True"
| "instanceof_Error (TypeError m) = True"
| "instanceof_Error (Thrown v) = False"

text \<open>\<^verbatim>\<open>err.message\<close>, read in \<^verbatim>\<open>handle\<close> from instances of \<^verbatim>\<open>Error\<close> only.\<close>

fun message :: "js_error \<Rightarrow> jsval" where
  "message (Error m) = m"
| "message (TypeError s) = Str s"
| "message (Thrown v) = Undefined"

text \<open>
  The conversion of a number to a string, for the integers of this model: the decimal
  digits, most significant first, after a minus sign for a negative number.
  \<^verbatim>\<open>digit\<close> is applied to numbers below ten only.
\<close>

definition digit :: "nat \<Rightarrow> char" where
  "digit d = ''0123456789'' ! d"

fun decimal :: "nat \<Rightarrow> string" where
  "decimal n = (if 10 \<le> n then decimal (n div 10) @ [digit (n mod 10)] else [digit n])"

declare decimal.simps [simp del]

definition number_to_string :: "int \<Rightarrow> string" where
  "number_to_string i = (if 0 \<le> i then decimal (nat i) else CHR ''-'' # decimal (nat (- i)))"

text \<open>
  The conversion to string that a template literal \<^verbatim>\<open>`${v}`\<close> applies to \<^verbatim>\<open>v\<close>. It
  throws a \<^verbatim>\<open>TypeError\<close> on a symbol. An object is converted by its \<^verbatim>\<open>toString\<close>
  method: the inherited one yields \<^verbatim>\<open>[object Object]\<close>; an own property \<^verbatim>\<open>toString\<close>
  of a data object is not callable, and then neither it nor \<^verbatim>\<open>valueOf\<close> yields a
  primitive, which throws a \<^verbatim>\<open>TypeError\<close>.
\<close>

fun to_string :: "jsval \<Rightarrow> js_error + string" where
  "to_string Undefined = Inr ''undefined''"
| "to_string Null = Inr ''null''"
| "to_string (Bool b) = Inr (if b then ''true'' else ''false'')"
| "to_string (Num n) = Inr (number_to_string n)"
| "to_string (Str s) = Inr s"
| "to_string (Symbol d) = Inl (TypeError ''Cannot convert a Symbol value to a string'')"
| "to_string (Obj fs) =
     (if map_of fs ''toString'' = None then Inr ''[object Object]''
      else Inl (TypeError ''Cannot convert object to primitive value''))"

definition cannot_read :: "string \<Rightarrow> string \<Rightarrow> string" where
  "cannot_read what prop =
     ''Cannot read properties of '' @ what @ '' (reading '' @ [CHR 0x27] @ prop @ [CHR 0x27] @ '')''"

text \<open>
  Property read \<^verbatim>\<open>v.prop\<close>. Reading from \<^verbatim>\<open>undefined\<close> or \<^verbatim>\<open>null\<close> throws a
  \<^verbatim>\<open>TypeError\<close>; an object yields the property or \<^verbatim>\<open>undefined\<close>; a primitive has none
  of the properties read by this action (\<^verbatim>\<open>value\<close>, \<^verbatim>\<open>options\<close>, \<^verbatim>\<open>outDir\<close>,
  \<^verbatim>\<open>compilerOptions\<close>, \<^verbatim>\<open>webpackConfigPath\<close>).
\<close>

fun getProp :: "jsval \<Rightarrow> string \<Rightarrow> js_error + jsval" where
  "getProp Undefined prop = Inl (TypeError (cannot_read ''undefined'' prop))"
| "getProp Null prop = Inl (TypeError (cannot_read ''null'' prop))"
| "getProp (Obj fs) prop = Inr (case map_of fs prop of None \<Rightarrow> Undefined | Some v \<Rightarrow> v)"
| "getProp v prop = Inr Undefined"

subsection \<open>Inputs\<close>

text \<open>The interface \<^verbatim>\<open>Input\<close> of \<^verbatim>\<open>../commands\<close>: one parsed argument or flag.\<close>

record input =
  name :: string
  "value" :: jsval

text \<open>
  \<^verbatim>\<open>xs.find(p)!.value\<close>: \<^verbatim>\<open>find\<close> yields the first element satisfying \<^verbatim>\<open>p\<close> or
  \<^verbatim>\<open>undefined\<close>; the assertion \<^verbatim>\<open>!\<close> checks nothing, so reading \<^verbatim>\<open>value\<close> from
  \<^verbatim>\<open>undefined\<close> throws.
\<close>

definition value_of_found :: "input option \<Rightarrow> js_error + jsval" where
  "value_of_found found =
     (case found of
        None \<Rightarrow> Inl (TypeError (cannot_read ''undefined'' ''value''))
      | Some i \<Rightarrow> Inr (value i))"

subsection \<open>Webpack configuration factories\<close>

text \<open>
  What \<^verbatim>\<open>require\<close> of a webpack configuration file yields: a configuration object, or a
  function from a base configuration to a configuration (which may throw).
\<close>

datatype factory_or_config =
    Config jsval
  | Factory "jsval \<Rightarrow> js_error + jsval"

text \<open>Calling the loaded value as a function on a base configuration.\<close>

fun apply_factory :: "factory_or_config \<Rightarrow> jsval \<Rightarrow> js_error + jsval" where
  "apply_factory (Factory f) c = f c"
| "apply_factory (Config v) c = Inl (TypeError ''webpackConfigFactoryOrConfig is not a function'')"

text \<open>
  The arrow function \<^verbatim>\<open>({}) => ({})\<close>: its parameter is an empty destructuring pattern,
  which throws on \<^verbatim>\<open>undefined\<close> and \<^verbatim>\<open>null\<close> and binds nothing otherwise; its body is
  the object literal \<^verbatim>\<open>{}\<close>.
\<close>

definition empty_config_factory :: "jsval \<Rightarrow> js_error + jsval" where
  "empty_config_factory c =
     (if c = Undefined \<or> c = Null
      then Inl (TypeError ''Cannot destructure the argument as it is undefined or null'')
      else Inr (Obj []))"

subsection \<open>Collaborators and the trace of their calls\<close>

typedecl callback

text \<open>
  What a call whose result is discarded handed back: \<^verbatim>\<open>watchCompiler.run\<close> and
  \<^verbatim>\<open>compiler.run\<close> are called as statements, neither awaited nor returned. If such a
  call hands back a promise that rejects, the rejection reaches no \<^verbatim>\<open>await\<close>.
\<close>

datatype discarded = Returned | ReturnedRejecting js_error

text \<open>One entry per call that leaves the class, with the arguments of the call.\<close>

datatype event =
    LoaderLoad jsval
  | GetByConfigFilename jsval
  | DeleteOutDirIfEnabled jsval jsval jsval
  | CopyAssets jsval jsval jsval
  | Require string
  | WebpackCompilerRun jsval factory_or_config jsval jsval bool bool "callback option"
  | WatchCompilerRun jsval jsval jsval "callback option"
  | CompilerRun jsval jsval jsval "callback option"
  | ConsoleLog string
  | ConsoleError string

text \<open>
  The outcome of each external call, and the constants imported from modules outside
  this file (\<^verbatim>\<open>defaultOutDir\<close>, \<^verbatim>\<open>ERROR_PREFIX\<close>). A collaborator is given by the
  outcome it has on each tuple of arguments: the value it returns or resolves to, or the
  error it throws or rejects with. What a collaborator does to the file system is not
  modelled; the action never reads it but through these calls. \<^verbatim>\<open>chalk.red\<close> converts
  its argument to a string, which may throw.
\<close>

record collaborators =
  loader_load :: "jsval \<Rightarrow> js_error + jsval"
  getByConfigFilename :: "jsval \<Rightarrow> js_error + jsval"
  deleteOutDirIfEnabled :: "jsval \<Rightarrow> jsval \<Rightarrow> jsval \<Rightarrow> js_error + unit"
  copyAssets :: "jsval \<Rightarrow> jsval \<Rightarrow> jsval \<Rightarrow> js_error + unit"
  webpackCompiler_run ::
    "jsval \<Rightarrow> factory_or_config \<Rightarrow> jsval \<Rightarrow> jsval \<Rightarrow> bool \<Rightarrow> bool \<Rightarrow> callback option
      \<Rightarrow> js_error + jsval"
  watchCompiler_run ::
    "jsval \<Rightarrow> jsval \<Rightarrow> jsval \<Rightarrow> callback option \<Rightarrow> js_error + discarded"
  compiler_run :: "jsval \<Rightarrow> jsval \<Rightarrow> jsval \<Rightarrow> callback option \<Rightarrow> js_error + discarded"
  require :: "string \<Rightarrow> js_error + factory_or_config"
  process_cwd :: string
  join :: "string \<Rightarrow> string \<Rightarrow> string"
  defaultOutDir :: string
  ERROR_PREFIX :: string
  chalk_red :: "js_error \<Rightarrow> js_error + string"

text \<open>
  A computation of the action: the calls it made, in order, and either the value it
  returned or the error it threw. An \<^verbatim>\<open>await\<close> of a rejected promise throws the
  rejection, so awaited and synchronous calls are sequenced the same way.
\<close>

type_synonym 'a io = "event list \<times> (js_error + 'a)"

definition io_return :: "'a \<Rightarrow> 'a io" where
  "io_return x = ([], Inr x)"

definition io_lift :: "js_error + 'a \<Rightarrow> 'a io" where
  "io_lift r = ([], r)"

definition io_call :: "event \<Rightarrow> js_error + 'a \<Rightarrow> 'a io" where
  "io_call ev outcome = ([ev], outcome)"

definition io_bind :: "'a io \<Rightarrow> ('a \<Rightarrow> 'b io) \<Rightarrow> 'b io" where
  "io_bind m f =
     (case m of
        (tr, Inl err) \<Rightarrow> (tr, Inl err)
      | (tr, Inr x) \<Rightarrow> (case f x of (tr', r) \<Rightarrow> (tr @ tr', r)))"

definition io_catch :: "'a io \<Rightarrow> (js_error \<Rightarrow> 'a io) \<Rightarrow> 'a io" where
  "io_catch m h =
     (case m of
        (tr, Inl err) \<Rightarrow> (case h err of (tr', r) \<Rightarrow> (tr @ tr', r))
      | (tr, Inr x) \<Rightarrow> (tr, Inr x))"

subsection \<open>The value resolver\<close>

text \<open>Splitting a dotted path at its dots.\<close>

fun split_dots :: "string \<Rightarrow> string list" where
  "split_dots [] = [[]]"
| "split_dots (c # cs) =
     (if c = CHR ''.'' then [] # split_dots cs
      else (case split_dots cs of
              [] \<Rightarrow> [[c]]
            | seg # segs \<Rightarrow> (c # seg) # segs))"

text \<open>Walking a path of property names down a document; absence anywhere is \<^verbatim>\<open>undefined\<close>.\<close>

fun getValueOfPath :: "jsval \<Rightarrow> string list \<Rightarrow> jsval" where
  "getValueOfPath v [] = v"
| "getValueOfPath (Obj fs) (k # ks) =
     (case map_of fs k of None \<Rightarrow> Undefined | Some v \<Rightarrow> getValueOfPath v ks)"
| "getValueOfPath v (k # ks) = Undefined"

text \<open>
  Modelled from the spec: the name of the per-application override section of the
  configuration document, which the spec describes ("a per-application override section
  keyed by application name") and does not name.
\<close>

definition perApplicationSection :: string where
  "perApplicationSection = ''projects''"

text \<open>
  Modelled from the spec: the function \<^verbatim>\<open>getValueOrDefault\<close> of
  \<^verbatim>\<open>../lib/compiler/helpers/get-value-or-default\<close>, which is not among the sources.
  Section 4.1 of the specification gives four sources in strict precedence order:
  (1) an explicit command-line option matching the given option name, if present in the
  options list and not undefined; (2) an application-specific override in the
  configuration document, keyed by the application name, at the given dotted path;
  (3) a global value in the configuration document at the same dotted path;
  (4) a caller-supplied fallback default. It never throws. The calls in
  \<^verbatim>\<open>build.action.ts\<close> supply no fallback, which is \<^verbatim>\<open>undefined\<close>.
\<close>

definition getValueOrDefault ::
  "jsval \<Rightarrow> string \<Rightarrow> jsval \<Rightarrow> string \<Rightarrow> input list \<Rightarrow> jsval \<Rightarrow> jsval" where
  "getValueOrDefault configuration propertyPath appName key options defaultValue =
     (case find (\<lambda>option. name option = key \<and> value option \<noteq> Undefined) options of
        Some option \<Rightarrow> value option
      | None \<Rightarrow>
          (let perAppValue =
                 (case appName of
                    Str app \<Rightarrow>
                      getValueOfPath configuration
                        (perApplicationSection # app # split_dots propertyPath)
                  | _ \<Rightarrow> Undefined)
           in if perAppValue \<noteq> Undefined then perAppValue
              else (let globalValue = getValueOfPath configuration (split_dots propertyPath)
                    in if globalValue \<noteq> Undefined then globalValue else defaultValue)))"

subsection \<open>The build action\<close>

text \<open>
  \<^verbatim>\<open>getWebpackConfigFactoryByPath(webpackPath, defaultPath)\<close>. Node's \<^verbatim>\<open>path.join\<close>
  throws a \<^verbatim>\<open>TypeError\<close> on an argument that is not a string, before the \<^verbatim>\<open>try\<close>
  block is entered. \<^verbatim>\<open>!==\<close> between a string and another value is plain inequality.
\<close>

definition getWebpackConfigFactoryByPath ::
  "collaborators \<Rightarrow> jsval \<Rightarrow> jsval \<Rightarrow> factory_or_config io" where
  "getWebpackConfigFactoryByPath env webpackPath defaultPath =
     (case webpackPath of
        Str p \<Rightarrow>
          (let pathToWebpackFile = join env (process_cwd env) p
           in io_catch
                (io_call (Require pathToWebpackFile) (require env pathToWebpackFile))
                (\<lambda>err. if webpackPath \<noteq> defaultPath then io_lift (Inl err)
                        else io_return (Factory empty_config_factory)))
      | _ \<Rightarrow>
          io_lift (Inl (TypeError ''The path argument must be of type string'')))"

text \<open>
  \<^verbatim>\<open>runBuild(inputs, options, watchMode, isDebugEnabled, onSuccess)\<close> is embedded in two
  parts that run one after the other. The first part is lines 62 to 89: the statements
  up to and including the awaited \<^verbatim>\<open>copyAssets\<close>. It yields the locals the rest of the
  function reads: \<^verbatim>\<open>configuration\<close>, \<^verbatim>\<open>appName\<close>, \<^verbatim>\<open>pathToTsconfig\<close> and
  \<^verbatim>\<open>isWebpackEnabled\<close>. The destructuring
  \<^verbatim>\<open>const { options: tsOptions } = ...\<close> reads the property \<^verbatim>\<open>options\<close>.
\<close>

definition runBuild_prepare ::
  "collaborators \<Rightarrow> input list \<Rightarrow> input list \<Rightarrow> (jsval \<times> jsval \<times> jsval \<times> jsval) io" where
  "runBuild_prepare env inputs options =
     io_bind (io_lift (value_of_found (find (\<lambda>option. name option = ''config'') options)))
       (\<lambda>configFileName.
     io_bind (io_call (LoaderLoad configFileName) (loader_load env configFileName))
       (\<lambda>configuration.
     io_bind (io_lift (value_of_found (find (\<lambda>input. name input = ''app'') inputs)))
       (\<lambda>appName.
     let pathToTsconfig =
           getValueOrDefault configuration ''compilerOptions.tsConfigPath'' appName ''path''
             options Undefined
     in
     io_bind (io_call (GetByConfigFilename pathToTsconfig) (getByConfigFilename env pathToTsconfig))
       (\<lambda>tsConfig.
     io_bind (io_lift (getProp tsConfig ''options''))
       (\<lambda>tsOptions.
     io_bind (io_lift (getProp tsOptions ''outDir''))
       (\<lambda>tsOutDir.
     let outDir = js_or tsOutDir (Str (defaultOutDir env));
         isWebpackEnabled =
           getValueOrDefault configuration ''compilerOptions.webpack'' appName ''webpack''
             options Undefined
     in
     io_bind (io_call (DeleteOutDirIfEnabled configuration appName outDir)
                (deleteOutDirIfEnabled env configuration appName outDir))
       (\<lambda>_.
     io_bind (io_call (CopyAssets configuration appName outDir)
                (copyAssets env configuration appName outDir))
       (\<lambda>_.
     io_return (configuration, appName, pathToTsconfig, isWebpackEnabled)))))))))"

text \<open>
  The second part is lines 91 to 119: the dispatch on \<^verbatim>\<open>isWebpackEnabled\<close> and
  \<^verbatim>\<open>watchMode\<close>. The arguments of a call are evaluated left to right before the call,
  so \<^verbatim>\<open>configuration.compilerOptions!.webpackConfigPath!\<close> is read before
  \<^verbatim>\<open>getWebpackConfigFactoryByPath\<close> runs. The bundling run is returned, so the caller's
  \<^verbatim>\<open>await\<close> sees its rejection. The watch and one-shot runs are statements: what they
  hand back is discarded, and the function falls off its end, returning \<^verbatim>\<open>undefined\<close>.
\<close>

definition runBuild_dispatch ::
  "collaborators \<Rightarrow> input list \<Rightarrow> bool \<Rightarrow> bool \<Rightarrow> callback option
    \<Rightarrow> jsval \<times> jsval \<times> jsval \<times> jsval \<Rightarrow> jsval io" where
  "runBuild_dispatch env options watchMode isDebugEnabled onSuccess locals =
     (case locals of (configuration, appName, pathToTsconfig, isWebpackEnabled) \<Rightarrow>
     if truthy isWebpackEnabled then
       (let webpackPath =
              getValueOrDefault configuration ''compilerOptions.webpackConfigPath'' appName
                ''webpackPath'' options Undefined
        in
        io_bind (io_lift (getProp configuration ''compilerOptions''))
          (\<lambda>compilerOptions.
        io_bind (io_lift (getProp compilerOptions ''webpackConfigPath''))
          (\<lambda>defaultPath.
        io_bind (getWebpackConfigFactoryByPath env webpackPath defaultPath)
          (\<lambda>webpackConfigFactoryOrConfig.
        io_call
          (WebpackCompilerRun configuration webpackConfigFactoryOrConfig pathToTsconfig
             appName isDebugEnabled watchMode onSuccess)
          (webpackCompiler_run env configuration webpackConfigFactoryOrConfig pathToTsconfig
             appName isDebugEnabled watchMode onSuccess)))))
     else if watchMode then
       io_bind (io_call (WatchCompilerRun configuration pathToTsconfig appName onSuccess)
                  (watchCompiler_run env configuration pathToTsconfig appName onSuccess))
         (\<lambda>_. io_return Undefined)
     else
       io_bind (io_call (CompilerRun configuration pathToTsconfig appName onSuccess)
                  (compiler_run env configuration pathToTsconfig appName onSuccess))
         (\<lambda>_. io_return Undefined))"

definition runBuild ::
  "collaborators \<Rightarrow> input list \<Rightarrow> input list \<Rightarrow> bool \<Rightarrow> bool \<Rightarrow> callback option \<Rightarrow> jsval io" where
  "runBuild env inputs options watchMode isDebugEnabled onSuccess =
     io_bind (runBuild_prepare env inputs options)
       (runBuild_dispatch env options watchMode isDebugEnabled onSuccess)"

text \<open>
  The watch-mode flag computed by \<^verbatim>\<open>handle\<close>:
  \<^verbatim>\<open>!!(watchModeOption && watchModeOption.value)\<close> with \<^verbatim>\<open>watchModeOption\<close> the
  result of \<^verbatim>\<open>options.find(option => option.name === 'watch')\<close>.
\<close>

definition watchModeOf :: "input list \<Rightarrow> bool" where
  "watchModeOf options =
     (let watchModeOption = find (\<lambda>option. name option = ''watch'') options
      in case watchModeOption of
           None \<Rightarrow> False
         | Some option \<Rightarrow> truthy (value option))"

text \<open>
  The \<^verbatim>\<open>catch\<close> block of \<^verbatim>\<open>handle\<close>, lines 46 to 52. Each template literal converts
  its holes to strings before \<^verbatim>\<open>console.log\<close> or \<^verbatim>\<open>console.error\<close> is called:
  \<^verbatim>\<open>err.message\<close> in the first branch, the result of \<^verbatim>\<open>chalk.red(err)\<close> in the second.
  Nothing guards these conversions, so an error thrown by one leaves the \<^verbatim>\<open>catch\<close> block
  and \<^verbatim>\<open>handle\<close> with it, and nothing is printed. \<^verbatim>\<open>ERROR_PREFIX\<close> is a string constant.
\<close>

definition handle_catch :: "collaborators \<Rightarrow> js_error \<Rightarrow> unit io" where
  "handle_catch env err =
     (if instanceof_Error err
      then io_bind (io_lift (to_string (message err)))
             (\<lambda>line.
                io_call (ConsoleLog ([CHR 0x0A] @ ERROR_PREFIX env @ '' '' @ line @ [CHR 0x0A]))
                  (Inr ()))
      else io_bind (io_lift (chalk_red env err))
             (\<lambda>line.
                io_call (ConsoleError ([CHR 0x0A] @ line @ [CHR 0x0A])) (Inr ())))"

text \<open>
  \<^verbatim>\<open>handle(inputs, options)\<close>: the \<^verbatim>\<open>try\<close> block awaits \<^verbatim>\<open>runBuild\<close> with the
  default \<^verbatim>\<open>isDebugEnabled = false\<close> and no \<^verbatim>\<open>onSuccess\<close>; an error thrown there enters
  the \<^verbatim>\<open>catch\<close> block.
\<close>

definition handle :: "collaborators \<Rightarrow> input list \<Rightarrow> input list \<Rightarrow> unit io" where
  "handle env inputs options =
     io_catch
       (let watchMode = watchModeOf options
        in io_bind (runBuild env inputs options watchMode False None) (\<lambda>_. io_return ()))
       (handle_catch env)"

text \<open>
  The three compilation strategies, and the strategy an event invokes:
  \<^verbatim>\<open>webpackCompiler.run\<close> is bundling, \<^verbatim>\<open>watchCompiler.run\<close> is watching,
  \<^verbatim>\<open>compiler.run\<close> is one-shot compilation.
\<close>

datatype strategy = Bundling | Watching | OneShot

fun strategy_of :: "event \<Rightarrow> strategy option" where
  "strategy_of (WebpackCompilerRun c f p a d w s) = Some Bundling"
| "strategy_of (WatchCompilerRun c p a s) = Some Watching"
| "strategy_of (CompilerRun c p a s) = Some OneShot"
| "strategy_of ev = None"

text \<open>The strategies invoked in a trace, in the order of their invocation.\<close>

fun strategies_invoked :: "event list \<Rightarrow> strategy list" where
  "strategies_invoked [] = []"
| "strategies_invoked (ev # tr) =
     (case strategy_of ev of
        None \<Rightarrow> strategies_invoked tr
      | Some s \<Rightarrow> s # strategies_invoked tr)"

subsection \<open>A test double of the collaborators\<close>

text \<open>
  Stubs in the manner of the unit tests of the action: the loader returns a given
  configuration document, the tsconfig provider a given descriptor, cleanup, asset copy
  and the three compilers succeed, no webpack configuration file exists on disk, and
  \<^verbatim>\<open>chalk.red\<close> converts a thrown value to a string without colouring it.
\<close>

definition stub_collaborators :: "jsval \<Rightarrow> jsval \<Rightarrow> collaborators" where
  "stub_collaborators configuration tsConfig =
     \<lparr> loader_load = (\<lambda>fileName. Inr configuration),
       getByConfigFilename = (\<lambda>path. Inr tsConfig),
       deleteOutDirIfEnabled = (\<lambda>c a d. Inr ()),
       copyAssets = (\<lambda>c a d. Inr ()),
       webpackCompiler_run = (\<lambda>c f p a d w s. Inr Undefined),
       watchCompiler_run = (\<lambda>c p a s. Inr Returned),
       compiler_run = (\<lambda>c p a s. Inr Returned),
       require = (\<lambda>path. Inl (Error (Str (''Cannot find module '' @ path)))),
       process_cwd = ''/srv'',
       join = (\<lambda>a b. a @ ''/'' @ b),
       defaultOutDir = ''dist'',
       ERROR_PREFIX = ''Error'',
       chalk_red = (\<lambda>err. case err of Thrown v \<Rightarrow> to_string v | _ \<Rightarrow> Inr ''Error'') \<rparr>"

definition config_option :: input where
  "config_option = \<lparr> name = ''config'', value = Str ''nest-cli.json'' \<rparr>"

definition app_input :: input where
  "app_input = \<lparr> name = ''app'', value = Str ''api'' \<rparr>"

definition tsconfig_with_outDir :: "jsval \<Rightarrow> jsval" where
  "tsconfig_with_outDir d = Obj [(''options'', Obj [(''outDir'', d)])]"

definition nest_configuration :: "bool \<Rightarrow> string \<Rightarrow> jsval" where
  "nest_configuration webpack webpackConfigPath =
     Obj [(''compilerOptions'',
           Obj [(''tsConfigPath'', Str ''tsconfig.build.json''),
                (''webpack'', Bool webpack),
                (''webpackConfigPath'', Str webpackConfigPath)])]"

text \<open>A configuration with an override for the application \<^verbatim>\<open>api\<close>.\<close>

definition monorepo_configuration :: jsval where
  "monorepo_configuration =
     Obj [(''compilerOptions'', Obj [(''tsConfigPath'', Str ''tsconfig.build.json'')]),
          (''projects'',
           Obj [(''api'',
                 Obj [(''compilerOptions'',
                       Obj [(''tsConfigPath'', Str ''apps/api/tsconfig.app.json'')])])])]"

text \<open>
  Four projects: webpack disabled; webpack enabled; a configuration with no
  \<^verbatim>\<open>compilerOptions\<close> whose descriptor declares no \<^verbatim>\<open>outDir\<close>; and a descriptor that
  declares the empty string as \<^verbatim>\<open>outDir\<close>.
\<close>

definition plain_project :: collaborators where
  "plain_project =
     stub_collaborators (nest_configuration False ''webpack.config.js'')
       (tsconfig_with_outDir (Str ''build''))"

definition webpack_project :: collaborators where
  "webpack_project =
     stub_collaborators (nest_configuration True ''webpack.config.js'')
       (tsconfig_with_outDir (Str ''build''))"

definition bare_project :: collaborators where
  "bare_project = stub_collaborators (Obj []) (Obj [(''options'', Obj [])])"

definition empty_outDir_project :: collaborators where
  "empty_outDir_project =
     stub_collaborators (nest_configuration False ''webpack.config.js'')
       (tsconfig_with_outDir (Str []))"

text \<open>
  Three more: the configuration itself names a webpack configuration file other than
  \<^verbatim>\<open>webpack.config.js\<close>; the loader throws a given value; the one-shot compiler hands
  back a promise that rejects.
\<close>

definition custom_webpack_project :: collaborators where
  "custom_webpack_project =
     stub_collaborators (nest_configuration True ''custom.webpack.js'')
       (tsconfig_with_outDir (Str ''build''))"

definition failing_loader_project :: "js_error \<Rightarrow> collaborators" where
  "failing_loader_project err = plain_project \<lparr> loader_load := \<lambda>fileName. Inl err \<rparr>"

definition rejecting_compiler_project :: "js_error \<Rightarrow> collaborators" where
  "rejecting_compiler_project err =
     plain_project \<lparr> compiler_run := \<lambda>c p a s. Inr (ReturnedRejecting err) \<rparr>"

text \<open>Options as the command line sets them.\<close>

definition webpackPath_option :: input where
  "webpackPath_option = \<lparr> name = ''webpackPath'', value = Str ''custom.webpack.js'' \<rparr>"

definition webpack_option :: input where
  "webpack_option = \<lparr> name = ''webpack'', value = Bool True \<rparr>"

definition path_option :: input where
  "path_option = \<lparr> name = ''path'', value = Str ''tsconfig.app.json'' \<rparr>"

definition watch_option :: "bool \<Rightarrow> input" where
  "watch_option b = \<lparr> name = ''watch'', value = Bool b \<rparr>"

section \<open>Properties\<close>

subsection \<open>Sequencing of computations\<close>

lemma io_bind_lift_Inl: "io_bind (io_lift (Inl e)) f = ([], Inl e)"
  by (simp add: io_bind_def io_lift_def)
lemma io_bind_lift_Inr: "io_bind (io_lift (Inr x)) f = f x"
  by (simp add: io_bind_def io_lift_def split: prod.splits)
lemma io_bind_call_Inl: "io_bind (io_call ev (Inl e)) f = ([ev], Inl e)"
  by (simp add: io_bind_def io_call_def)
lemma io_bind_call_Inr: "io_bind (io_call ev (Inr x)) f = (ev # fst (f x), snd (f x))"
  by (simp add: io_bind_def io_call_def split: prod.splits)
lemma io_bind_pair_Inl: "io_bind (tr, Inl e) f = (tr, Inl e)"
  by (simp add: io_bind_def)
lemma io_bind_pair_Inr: "io_bind (tr, Inr x) f = (tr @ fst (f x), snd (f x))"
  by (simp add: io_bind_def split: prod.splits)

lemmas io_bind_simps = io_bind_lift_Inl io_bind_lift_Inr io_bind_call_Inl io_bind_call_Inr
  io_bind_pair_Inl io_bind_pair_Inr

lemma io_bind_eq:
  "io_bind m f = (tr, r) \<longleftrightarrow>
     (\<exists>e. m = (tr, Inl e) \<and> r = Inl e) \<or>
     (\<exists>pre x post. m = (pre, Inr x) \<and> f x = (post, r) \<and> tr = pre @ post)"
  by (cases m; cases "snd m") (auto simp: io_bind_def split: prod.splits)

lemma strategies_invoked_append:
  "strategies_invoked (xs @ ys) = strategies_invoked xs @ strategies_invoked ys"
  by (induction xs) (auto split: option.splits)

lemma io_lift_eq: "io_lift r = (tr, r') \<longleftrightarrow> tr = [] \<and> r = r'"
  by (auto simp: io_lift_def)
lemma io_call_eq: "io_call ev r = (tr, r') \<longleftrightarrow> tr = [ev] \<and> r = r'"
  by (auto simp: io_call_def)
lemma io_return_eq: "io_return x = (tr, r) \<longleftrightarrow> tr = [] \<and> r = Inr x"
  by (auto simp: io_return_def)
lemma io_bind_eq_Inr:
  "io_bind m f = (tr, Inr y) \<longleftrightarrow>
     (\<exists>pre x post. m = (pre, Inr x) \<and> f x = (post, Inr y) \<and> tr = pre @ post)"
  by (auto simp: io_bind_eq)

lemmas io_eqs = io_bind_eq_Inr io_lift_eq io_call_eq io_return_eq

lemma prepare_Inr:
  assumes "runBuild_prepare env inputs options = (pre, Inr (cfg, app, pth, wp))"
  shows "\<exists>cf tsConfig tsOptions tsOutDir.
           value_of_found (find (\<lambda>option. name option = ''config'') options) = Inr cf \<and>
           loader_load env cf = Inr cfg \<and>
           value_of_found (find (\<lambda>input. name input = ''app'') inputs) = Inr app \<and>
           pth = getValueOrDefault cfg ''compilerOptions.tsConfigPath'' app ''path'' options Undefined \<and>
           getByConfigFilename env pth = Inr tsConfig \<and>
           getProp tsConfig ''options'' = Inr tsOptions \<and>
           getProp tsOptions ''outDir'' = Inr tsOutDir \<and>
           wp = getValueOrDefault cfg ''compilerOptions.webpack'' app ''webpack'' options Undefined \<and>
           deleteOutDirIfEnabled env cfg app (js_or tsOutDir (Str (defaultOutDir env))) = Inr () \<and>
           copyAssets env cfg app (js_or tsOutDir (Str (defaultOutDir env))) = Inr () \<and>
           pre = [LoaderLoad cf, GetByConfigFilename pth,
                  DeleteOutDirIfEnabled cfg app (js_or tsOutDir (Str (defaultOutDir env))),
                  CopyAssets cfg app (js_or tsOutDir (Str (defaultOutDir env)))]"
  using assms
  by (auto simp: runBuild_prepare_def Let_def io_eqs)


lemma prepare_quiet:
  assumes "runBuild_prepare env inputs options = (pre, r)"
  shows "strategies_invoked pre = [] \<and> (\<forall>p. Require p \<notin> set pre)"
  using assms
  by (auto simp: runBuild_prepare_def Let_def io_bind_eq io_lift_eq io_call_eq io_return_eq)

lemma prepare_outDir:
  assumes "runBuild_prepare env inputs options = (pre, r)"
    and "DeleteOutDirIfEnabled c a od \<in> set pre \<or> CopyAssets c a od \<in> set pre"
  shows "\<exists>pth descriptor tsOptions declared.
           GetByConfigFilename pth \<in> set pre \<and>
           getByConfigFilename env pth = Inr descriptor \<and>
           getProp descriptor ''options'' = Inr tsOptions \<and>
           getProp tsOptions ''outDir'' = Inr declared \<and>
           od = (if truthy declared then declared else Str (defaultOutDir env))"
  using assms
  by (auto simp: runBuild_prepare_def Let_def js_or_def io_bind_eq io_lift_eq io_call_eq io_return_eq)

lemma getWebpackConfigFactoryByPath_Str:
  "getWebpackConfigFactoryByPath env (Str p) d =
     (case require env (join env (process_cwd env) p) of
        Inr m \<Rightarrow> ([Require (join env (process_cwd env) p)], Inr m)
      | Inl err \<Rightarrow>
          ([Require (join env (process_cwd env) p)],
           if Str p \<noteq> d then Inl err else Inr (Factory empty_config_factory)))"
  by (simp add: getWebpackConfigFactoryByPath_def Let_def io_catch_def io_call_def io_lift_def
      io_return_def split: sum.splits)

lemma getWebpackConfigFactoryByPath_trace:
  assumes "getWebpackConfigFactoryByPath env wp d = (tr, r)"
  shows "tr = [] \<or> (\<exists>p. tr = [Require p])"
  using assms
  by (cases wp) (auto simp: getWebpackConfigFactoryByPath_Str split: sum.splits,
      auto simp: getWebpackConfigFactoryByPath_def io_lift_def)

lemma dispatch_trace:
  assumes "runBuild_dispatch env options watchMode dbg cb locals = (post, r)"
  shows "(\<forall>c a od. DeleteOutDirIfEnabled c a od \<notin> set post \<and> CopyAssets c a od \<notin> set post) \<and>
         length (strategies_invoked post) \<le> 1"
  using assms
  by (auto simp: runBuild_dispatch_def Let_def io_bind_eq io_lift_eq io_call_eq io_return_eq
      strategies_invoked_append
      dest!: getWebpackConfigFactoryByPath_trace split: prod.splits if_splits)

lemma dispatch_Inr:
  assumes "runBuild_dispatch env options watchMode dbg cb (cfg, app, pth, wp) = (post, Inr v)"
  shows "strategies_invoked post =
           [if truthy wp then Bundling else if watchMode then Watching else OneShot]"
  using assms
  by (auto simp: runBuild_dispatch_def Let_def io_eqs strategies_invoked_append
      dest!: getWebpackConfigFactoryByPath_trace split: if_splits)

lemma runBuild_eq:
  "runBuild env inputs options watchMode dbg cb = (tr, r) \<longleftrightarrow>
     (\<exists>e. runBuild_prepare env inputs options = (tr, Inl e) \<and> r = Inl e) \<or>
     (\<exists>pre locals post.
        runBuild_prepare env inputs options = (pre, Inr locals) \<and>
        runBuild_dispatch env options watchMode dbg cb locals = (post, r) \<and>
        tr = pre @ post)"
  by (simp add: runBuild_def io_bind_eq)

lemma runBuild_prepared:
  assumes "runBuild_prepare env inputs options = (pre, Inr locals)"
  shows "runBuild env inputs options watchMode dbg cb =
           (pre @ fst (runBuild_dispatch env options watchMode dbg cb locals),
            snd (runBuild_dispatch env options watchMode dbg cb locals))"
  using assms by (simp add: runBuild_def io_bind_pair_Inr)

subsection \<open>Finding the first match\<close>




subsection \<open>Scenarios on the test double\<close>

lemmas stub_defs = stub_collaborators_def config_option_def app_input_def tsconfig_with_outDir_def
  nest_configuration_def monorepo_configuration_def plain_project_def webpack_project_def bare_project_def
  empty_outDir_project_def custom_webpack_project_def failing_loader_project_def
  rejecting_compiler_project_def webpackPath_option_def webpack_option_def path_option_def
  watch_option_def

lemmas run_defs = runBuild_def runBuild_prepare_def runBuild_dispatch_def
  getWebpackConfigFactoryByPath_def getValueOrDefault_def value_of_found_def js_or_def
  perApplicationSection_def io_bind_def io_catch_def io_call_def io_lift_def io_return_def Let_def

text \<open>Webpack disabled, watch mode off: the one-shot compiler runs after cleanup and copy.\<close>

lemma scenario_one_shot:
  "runBuild plain_project [app_input] [config_option] False False None =
   ([LoaderLoad (Str ''nest-cli.json''),
     GetByConfigFilename (Str ''tsconfig.build.json''),
     DeleteOutDirIfEnabled (nest_configuration False ''webpack.config.js'') (Str ''api'')
       (Str ''build''),
     CopyAssets (nest_configuration False ''webpack.config.js'') (Str ''api'') (Str ''build''),
     CompilerRun (nest_configuration False ''webpack.config.js'')
       (Str ''tsconfig.build.json'') (Str ''api'') None],
    Inr Undefined)"
  by (simp add: run_defs stub_defs)

text \<open>Webpack disabled, watch mode on: the watch compiler runs instead.\<close>

lemma scenario_watch:
  "runBuild plain_project [app_input] [config_option] True False None =
   ([LoaderLoad (Str ''nest-cli.json''),
     GetByConfigFilename (Str ''tsconfig.build.json''),
     DeleteOutDirIfEnabled (nest_configuration False ''webpack.config.js'') (Str ''api'')
       (Str ''build''),
     CopyAssets (nest_configuration False ''webpack.config.js'') (Str ''api'') (Str ''build''),
     WatchCompilerRun (nest_configuration False ''webpack.config.js'')
       (Str ''tsconfig.build.json'') (Str ''api'') None],
    Inr Undefined)"
  by (simp add: run_defs stub_defs)

text \<open>Webpack enabled, a webpack configuration path given on the command line, no file there.\<close>

lemma scenario_missing_webpack_file:
  "runBuild webpack_project [app_input] [config_option, webpackPath_option] False False None =
   ([LoaderLoad (Str ''nest-cli.json''),
     GetByConfigFilename (Str ''tsconfig.build.json''),
     DeleteOutDirIfEnabled (nest_configuration True ''webpack.config.js'') (Str ''api'')
       (Str ''build''),
     CopyAssets (nest_configuration True ''webpack.config.js'') (Str ''api'') (Str ''build''),
     Require ''/srv/custom.webpack.js''],
    Inl (Error (Str ''Cannot find module /srv/custom.webpack.js'')))"
  by (simp add: run_defs stub_defs)

text \<open>Webpack enabled, the configuration's own webpack configuration path, no file there.\<close>

lemma scenario_default_webpack_file:
  "runBuild webpack_project [app_input] [config_option] False False None =
   ([LoaderLoad (Str ''nest-cli.json''),
     GetByConfigFilename (Str ''tsconfig.build.json''),
     DeleteOutDirIfEnabled (nest_configuration True ''webpack.config.js'') (Str ''api'')
       (Str ''build''),
     CopyAssets (nest_configuration True ''webpack.config.js'') (Str ''api'') (Str ''build''),
     Require ''/srv/webpack.config.js'',
     WebpackCompilerRun (nest_configuration True ''webpack.config.js'')
       (Factory empty_config_factory) (Str ''tsconfig.build.json'') (Str ''api'') False False None],
    Inr Undefined)"
  by (simp add: run_defs stub_defs)

text \<open>
  The one-shot compiler hands back a promise that rejects: \<^verbatim>\<open>handle\<close> returns and
  prints nothing.
\<close>

lemma scenario_unawaited_rejection:
  "handle (rejecting_compiler_project (Error (Str ''boom''))) [app_input] [config_option] =
     ([LoaderLoad (Str ''nest-cli.json''),
       GetByConfigFilename (Str ''tsconfig.build.json''),
       DeleteOutDirIfEnabled (nest_configuration False ''webpack.config.js'') (Str ''api'')
         (Str ''build''),
       CopyAssets (nest_configuration False ''webpack.config.js'') (Str ''api'') (Str ''build''),
       CompilerRun (nest_configuration False ''webpack.config.js'')
         (Str ''tsconfig.build.json'') (Str ''api'') None],
      Inr ())"
  by (simp add: handle_def watchModeOf_def run_defs stub_defs)

text \<open>The first part of \<^verbatim>\<open>runBuild\<close> on the project without webpack.\<close>

lemma prepare_plain_project:
  "runBuild_prepare plain_project [app_input] [config_option] =
     ([LoaderLoad (Str ''nest-cli.json''),
       GetByConfigFilename (Str ''tsconfig.build.json''),
       DeleteOutDirIfEnabled (nest_configuration False ''webpack.config.js'') (Str ''api'')
         (Str ''build''),
       CopyAssets (nest_configuration False ''webpack.config.js'') (Str ''api'') (Str ''build'')],
      Inr (nest_configuration False ''webpack.config.js'', Str ''api'',
           Str ''tsconfig.build.json'', Bool False))"
  by (simp add: run_defs stub_defs)

text \<open>
  The resolver on the configuration with an override: the override for \<^verbatim>\<open>api\<close>, the
  global value for an application without one, the fallback when neither is there.
\<close>

lemma resolver_per_application:
  "getValueOrDefault monorepo_configuration ''compilerOptions.tsConfigPath'' (Str ''api'') ''path''
     [config_option] Undefined = Str ''apps/api/tsconfig.app.json''"
  by (simp add: getValueOrDefault_def perApplicationSection_def
      stub_defs)

lemma resolver_global:
  "getValueOrDefault monorepo_configuration ''compilerOptions.tsConfigPath'' (Str ''admin'') ''path''
     [config_option] Undefined = Str ''tsconfig.build.json''"
  by (simp add: getValueOrDefault_def perApplicationSection_def
      stub_defs)

lemma resolver_fallback:
  "getValueOrDefault monorepo_configuration ''compilerOptions.webpack'' (Str ''api'') ''webpack''
     [config_option] (Bool False) = Bool False"
  by (simp add: getValueOrDefault_def perApplicationSection_def
      stub_defs)

subsection \<open>Dispatch\<close>

text \<open>
  Claim C3. A run of \<^verbatim>\<open>runBuild\<close> that returns normally invoked exactly one compilation
  strategy: bundling if the resolved webpack flag is truthy, otherwise watching if
  \<^verbatim>\<open>watchMode\<close>, otherwise one-shot compilation. The list of the strategies invoked in
  the run has that one element, so the other two were not invoked.
\<close>

theorem C3_exactly_one_strategy:
  assumes "runBuild env inputs options watchMode isDebugEnabled onSuccess = (tr, Inr v)"
  shows "\<exists>pre configuration appName pathToTsconfig isWebpackEnabled.
           runBuild_prepare env inputs options =
             (pre, Inr (configuration, appName, pathToTsconfig, isWebpackEnabled)) \<and>
           isWebpackEnabled =
             getValueOrDefault configuration ''compilerOptions.webpack'' appName ''webpack''
               options Undefined \<and>
           strategies_invoked tr =
             [if truthy isWebpackEnabled then Bundling
              else if watchMode then Watching else OneShot]"
proof -
  from assms obtain pre locals post where
    p: "runBuild_prepare env inputs options = (pre, Inr locals)" and
    d: "runBuild_dispatch env options watchMode isDebugEnabled onSuccess locals = (post, Inr v)" and
    tr: "tr = pre @ post"
    by (auto simp: runBuild_eq)
  obtain configuration appName pathToTsconfig isWebpackEnabled where
    l: "locals = (configuration, appName, pathToTsconfig, isWebpackEnabled)"
    by (cases locals) auto
  from p l have "isWebpackEnabled =
      getValueOrDefault configuration ''compilerOptions.webpack'' appName ''webpack''
        options Undefined"
    by (auto dest: prepare_Inr)
  moreover from p have "strategies_invoked pre = []"
    by (simp add: prepare_quiet)
  moreover from d l have "strategies_invoked post =
      [if truthy isWebpackEnabled then Bundling else if watchMode then Watching else OneShot]"
    by (simp add: dispatch_Inr)
  ultimately show ?thesis
    using p l tr by (simp add: strategies_invoked_append)
qed


theorem C3_exactly_one_strategy_witness:
  "runBuild plain_project [app_input] [config_option] True False None =
     ([LoaderLoad (Str ''nest-cli.json''),
       GetByConfigFilename (Str ''tsconfig.build.json''),
       DeleteOutDirIfEnabled (nest_configuration False ''webpack.config.js'') (Str ''api'')
         (Str ''build''),
       CopyAssets (nest_configuration False ''webpack.config.js'') (Str ''api'') (Str ''build''),
       WatchCompilerRun (nest_configuration False ''webpack.config.js'')
         (Str ''tsconfig.build.json'') (Str ''api'') None],
      Inr Undefined) \<and>
   strategies_invoked
     [LoaderLoad (Str ''nest-cli.json''),
      GetByConfigFilename (Str ''tsconfig.build.json''),
      DeleteOutDirIfEnabled (nest_configuration False ''webpack.config.js'') (Str ''api'')
        (Str ''build''),
      CopyAssets (nest_configuration False ''webpack.config.js'') (Str ''api'') (Str ''build''),
      WatchCompilerRun (nest_configuration False ''webpack.config.js'')
        (Str ''tsconfig.build.json'') (Str ''api'') None] = [Watching]"
  using C3_exactly_one_strategy [OF scenario_watch] scenario_watch
  by (auto split: if_splits)

text \<open>
  Claim C4. In every run of \<^verbatim>\<open>runBuild\<close>, an invocation of a compilation strategy,
  whichever it is, comes after the configuration load, the tsconfig lookup, the
  output-directory cleanup and the asset copy, which open the trace in that order, and
  cleanup and copy both returned normally, with the same output directory. And every
  run that reaches the dispatch (its first part returned) has made exactly these four
  calls before the dispatch starts.
\<close>

theorem C4_cleanup_and_copy_precede_strategy:
  assumes run: "runBuild env inputs options watchMode isDebugEnabled onSuccess = (tr, r)"
  shows "(\<forall>ev \<in> set tr. strategy_of ev \<noteq> None \<longrightarrow>
            (\<exists>configFileName pathToTsconfig configuration appName outDir post.
               tr = [LoaderLoad configFileName, GetByConfigFilename pathToTsconfig,
                     DeleteOutDirIfEnabled configuration appName outDir,
                     CopyAssets configuration appName outDir] @ post \<and>
               deleteOutDirIfEnabled env configuration appName outDir = Inr () \<and>
               copyAssets env configuration appName outDir = Inr () \<and>
               ev \<in> set post)) \<and>
         (\<forall>pre locals. runBuild_prepare env inputs options = (pre, Inr locals) \<longrightarrow>
            (\<exists>configFileName pathToTsconfig configuration appName outDir post.
               pre = [LoaderLoad configFileName, GetByConfigFilename pathToTsconfig,
                      DeleteOutDirIfEnabled configuration appName outDir,
                      CopyAssets configuration appName outDir] \<and>
               deleteOutDirIfEnabled env configuration appName outDir = Inr () \<and>
               copyAssets env configuration appName outDir = Inr () \<and>
               runBuild_dispatch env options watchMode isDebugEnabled onSuccess locals =
                 (post, r) \<and>
               tr = pre @ post))"
proof (intro conjI ballI allI impI)
  fix ev
  assume occurs: "ev \<in> set tr" and invokes: "strategy_of ev \<noteq> None"
  have quiet: "ev \<notin> set pre" if "strategies_invoked pre = []" for pre
    using that invokes by (induction pre) (auto split: option.splits)
  from run consider
      e where "runBuild_prepare env inputs options = (tr, Inl e)"
    | pre locals post where "runBuild_prepare env inputs options = (pre, Inr locals)"
        "runBuild_dispatch env options watchMode isDebugEnabled onSuccess locals = (post, r)"
        "tr = pre @ post"
    by (auto simp: runBuild_eq)
  then show "\<exists>configFileName pathToTsconfig configuration appName outDir post.
      tr = [LoaderLoad configFileName, GetByConfigFilename pathToTsconfig,
            DeleteOutDirIfEnabled configuration appName outDir,
            CopyAssets configuration appName outDir] @ post \<and>
      deleteOutDirIfEnabled env configuration appName outDir = Inr () \<and>
      copyAssets env configuration appName outDir = Inr () \<and>
      ev \<in> set post"
  proof cases
    case 1
    then have "ev \<notin> set tr" by (simp add: quiet prepare_quiet)
    with occurs show ?thesis by simp
  next
    case 2
    obtain configuration appName pathToTsconfig isWebpackEnabled where
      l: "locals = (configuration, appName, pathToTsconfig, isWebpackEnabled)"
      by (cases locals) auto
    from 2(1) have "ev \<notin> set pre" by (simp add: quiet prepare_quiet)
    with occurs 2(3) have "ev \<in> set post" by simp
    with prepare_Inr [OF 2(1) [unfolded l]] 2(3) show ?thesis
      by auto
  qed
next
  fix pre locals
  assume p: "runBuild_prepare env inputs options = (pre, Inr locals)"
  obtain configuration appName pathToTsconfig isWebpackEnabled where
    l: "locals = (configuration, appName, pathToTsconfig, isWebpackEnabled)"
    by (cases locals) auto
  from run p have "runBuild_dispatch env options watchMode isDebugEnabled onSuccess locals =
      (drop (length pre) tr, r) \<and> tr = pre @ drop (length pre) tr"
    by (auto simp: runBuild_eq)
  with prepare_Inr [OF p [unfolded l]]
  show "\<exists>configFileName pathToTsconfig configuration appName outDir post.
      pre = [LoaderLoad configFileName, GetByConfigFilename pathToTsconfig,
             DeleteOutDirIfEnabled configuration appName outDir,
             CopyAssets configuration appName outDir] \<and>
      deleteOutDirIfEnabled env configuration appName outDir = Inr () \<and>
      copyAssets env configuration appName outDir = Inr () \<and>
      runBuild_dispatch env options watchMode isDebugEnabled onSuccess locals = (post, r) \<and>
      tr = pre @ post"
    by blast
qed

theorem C4_cleanup_and_copy_precede_strategy_witness:
  "runBuild plain_project [app_input] [config_option] False False None =
     ([LoaderLoad (Str ''nest-cli.json''),
       GetByConfigFilename (Str ''tsconfig.build.json''),
       DeleteOutDirIfEnabled (nest_configuration False ''webpack.config.js'') (Str ''api'')
         (Str ''build''),
       CopyAssets (nest_configuration False ''webpack.config.js'') (Str ''api'') (Str ''build''),
       CompilerRun (nest_configuration False ''webpack.config.js'')
         (Str ''tsconfig.build.json'') (Str ''api'') None],
      Inr Undefined) \<and>
   strategy_of (CompilerRun (nest_configuration False ''webpack.config.js'')
     (Str ''tsconfig.build.json'') (Str ''api'') None) \<noteq> None \<and>
   (\<exists>configFileName pathToTsconfig configuration appName outDir post.
      [LoaderLoad (Str ''nest-cli.json''),
       GetByConfigFilename (Str ''tsconfig.build.json''),
       DeleteOutDirIfEnabled (nest_configuration False ''webpack.config.js'') (Str ''api'')
         (Str ''build''),
       CopyAssets (nest_configuration False ''webpack.config.js'') (Str ''api'') (Str ''build''),
       CompilerRun (nest_configuration False ''webpack.config.js'')
         (Str ''tsconfig.build.json'') (Str ''api'') None] =
      [LoaderLoad configFileName, GetByConfigFilename pathToTsconfig,
       DeleteOutDirIfEnabled configuration appName outDir,
       CopyAssets configuration appName outDir] @ post \<and>
      deleteOutDirIfEnabled plain_project configuration appName outDir = Inr () \<and>
      copyAssets plain_project configuration appName outDir = Inr () \<and>
      CompilerRun (nest_configuration False ''webpack.config.js'')
        (Str ''tsconfig.build.json'') (Str ''api'') None \<in> set post) \<and>
   runBuild_prepare plain_project [app_input] [config_option] =
     ([LoaderLoad (Str ''nest-cli.json''),
       GetByConfigFilename (Str ''tsconfig.build.json''),
       DeleteOutDirIfEnabled (nest_configuration False ''webpack.config.js'') (Str ''api'')
         (Str ''build''),
       CopyAssets (nest_configuration False ''webpack.config.js'') (Str ''api'') (Str ''build'')],
      Inr (nest_configuration False ''webpack.config.js'', Str ''api'',
           Str ''tsconfig.build.json'', Bool False)) \<and>
   runBuild_dispatch plain_project [config_option] False False None
     (nest_configuration False ''webpack.config.js'', Str ''api'',
      Str ''tsconfig.build.json'', Bool False) =
     ([CompilerRun (nest_configuration False ''webpack.config.js'')
         (Str ''tsconfig.build.json'') (Str ''api'') None],
      Inr Undefined)"
proof -
  note c = C4_cleanup_and_copy_precede_strategy [OF scenario_one_shot]
  have occurs: "CompilerRun (nest_configuration False ''webpack.config.js'')
      (Str ''tsconfig.build.json'') (Str ''api'') None \<in> set
      [LoaderLoad (Str ''nest-cli.json''),
       GetByConfigFilename (Str ''tsconfig.build.json''),
       DeleteOutDirIfEnabled (nest_configuration False ''webpack.config.js'') (Str ''api'')
         (Str ''build''),
       CopyAssets (nest_configuration False ''webpack.config.js'') (Str ''api'') (Str ''build''),
       CompilerRun (nest_configuration False ''webpack.config.js'')
         (Str ''tsconfig.build.json'') (Str ''api'') None]"
    by simp
  have invokes: "strategy_of (CompilerRun (nest_configuration False ''webpack.config.js'')
      (Str ''tsconfig.build.json'') (Str ''api'') None) \<noteq> None"
    by simp
  from c occurs invokes
  have 1: "\<exists>configFileName pathToTsconfig configuration appName outDir post.
      [LoaderLoad (Str ''nest-cli.json''),
       GetByConfigFilename (Str ''tsconfig.build.json''),
       DeleteOutDirIfEnabled (nest_configuration False ''webpack.config.js'') (Str ''api'')
         (Str ''build''),
       CopyAssets (nest_configuration False ''webpack.config.js'') (Str ''api'') (Str ''build''),
       CompilerRun (nest_configuration False ''webpack.config.js'')
         (Str ''tsconfig.build.json'') (Str ''api'') None] =
      [LoaderLoad configFileName, GetByConfigFilename pathToTsconfig,
       DeleteOutDirIfEnabled configuration appName outDir,
       CopyAssets configuration appName outDir] @ post \<and>
      deleteOutDirIfEnabled plain_project configuration appName outDir = Inr () \<and>
      copyAssets plain_project configuration appName outDir = Inr () \<and>
      CompilerRun (nest_configuration False ''webpack.config.js'')
        (Str ''tsconfig.build.json'') (Str ''api'') None \<in> set post"
    by blast
  from c prepare_plain_project
  have 2: "runBuild_dispatch plain_project [config_option] False False None
     (nest_configuration False ''webpack.config.js'', Str ''api'',
      Str ''tsconfig.build.json'', Bool False) =
     ([CompilerRun (nest_configuration False ''webpack.config.js'')
         (Str ''tsconfig.build.json'') (Str ''api'') None],
      Inr Undefined)"
    by auto
  from scenario_one_shot invokes 1 prepare_plain_project 2 show ?thesis by (intro conjI)
qed

subsection \<open>Missing required fields\<close>

text \<open>
  Claim C7. If no option is named \<^verbatim>\<open>config\<close>, or no input is named \<^verbatim>\<open>app\<close>,
  \<^verbatim>\<open>runBuild\<close> throws and invokes no compilation strategy. The error is the
  \<^verbatim>\<open>TypeError\<close> of reading \<^verbatim>\<open>value\<close> from \<^verbatim>\<open>undefined\<close> whenever the missing field is
  the one reached: at once when \<^verbatim>\<open>config\<close> is missing, and after a successful load when
  \<^verbatim>\<open>app\<close> is missing. When \<^verbatim>\<open>config\<close> is present and the load itself fails, the
  loader's error is thrown before \<^verbatim>\<open>app\<close> is looked up.
\<close>

theorem C7_missing_required_field_raises:
  assumes missing: "(\<forall>option \<in> set options. name option \<noteq> ''config'') \<or>
                    (\<forall>input \<in> set inputs. name input \<noteq> ''app'')"
  shows "\<exists>tr err.
           runBuild env inputs options watchMode isDebugEnabled onSuccess = (tr, Inl err) \<and>
           strategies_invoked tr = [] \<and>
           ((\<forall>option \<in> set options. name option \<noteq> ''config'') \<longrightarrow>
              tr = [] \<and> err = TypeError (cannot_read ''undefined'' ''value'')) \<and>
           (\<forall>option configuration.
              find (\<lambda>option. name option = ''config'') options = Some option \<and>
              loader_load env (value option) = Inr configuration \<longrightarrow>
              tr = [LoaderLoad (value option)] \<and>
              err = TypeError (cannot_read ''undefined'' ''value'')) \<and>
           (\<forall>option failure.
              find (\<lambda>option. name option = ''config'') options = Some option \<and>
              loader_load env (value option) = Inl failure \<longrightarrow>
              tr = [LoaderLoad (value option)] \<and> err = failure)"
proof (cases "find (\<lambda>option. name option = ''config'') options")
  case None
  then have "runBuild env inputs options watchMode isDebugEnabled onSuccess =
      ([], Inl (TypeError (cannot_read ''undefined'' ''value'')))"
    by (simp add: runBuild_def runBuild_prepare_def value_of_found_def io_bind_simps)
  with None show ?thesis by simp
next
  case (Some option)
  then have "\<not> (\<forall>option \<in> set options. name option \<noteq> ''config'')"
    by (auto simp: find_Some_iff)
  with missing have app: "find (\<lambda>input. name input = ''app'') inputs = None"
    by (simp add: find_None_iff)
  show ?thesis
  proof (cases "loader_load env (value option)")
    case (Inl failure)
    with Some have "runBuild env inputs options watchMode isDebugEnabled onSuccess =
        ([LoaderLoad (value option)], Inl failure)"
      by (simp add: runBuild_def runBuild_prepare_def value_of_found_def io_bind_simps)
    with Some Inl show ?thesis
      using \<open>\<not> (\<forall>option \<in> set options. name option \<noteq> ''config'')\<close> by simp
  next
    case (Inr configuration)
    with Some app have "runBuild env inputs options watchMode isDebugEnabled onSuccess =
        ([LoaderLoad (value option)], Inl (TypeError (cannot_read ''undefined'' ''value'')))"
      by (simp add: runBuild_def runBuild_prepare_def value_of_found_def io_bind_simps)
    with Some Inr show ?thesis
      using \<open>\<not> (\<forall>option \<in> set options. name option \<noteq> ''config'')\<close> by simp
  qed
qed

theorem C7_missing_required_field_raises_witness:
  "((\<forall>option \<in> set []. name option \<noteq> ''config'') \<or>
    (\<forall>input \<in> set [app_input]. name input \<noteq> ''app'')) \<and>
   runBuild plain_project [app_input] [] False False None =
     ([], Inl (TypeError (cannot_read ''undefined'' ''value''))) \<and>
   ((\<forall>option \<in> set [config_option]. name option \<noteq> ''config'') \<or>
    (\<forall>input \<in> set []. name input \<noteq> ''app'')) \<and>
   runBuild plain_project [] [config_option] False False None =
     ([LoaderLoad (Str ''nest-cli.json'')],
      Inl (TypeError (cannot_read ''undefined'' ''value''))) \<and>
   runBuild (plain_project \<lparr> loader_load := \<lambda>fileName. Inl (Error (Str ''ENOENT'')) \<rparr>)
       [] [config_option] False False None =
     ([LoaderLoad (Str ''nest-cli.json'')], Inl (Error (Str ''ENOENT'')))"
proof -
  have no_config: "(\<forall>option \<in> set []. name option \<noteq> ''config'') \<or>
      (\<forall>input \<in> set [app_input]. name input \<noteq> ''app'')"
    by simp
  have no_app: "(\<forall>option \<in> set [config_option]. name option \<noteq> ''config'') \<or>
      (\<forall>input \<in> set []. name input \<noteq> ''app'')"
    by simp
  have found: "find (\<lambda>option. name option = ''config'') [config_option] = Some config_option"
    by (simp add: stub_defs)
  have named: "value config_option = Str ''nest-cli.json''"
    by (simp add: stub_defs)
  have loaded: "loader_load plain_project (value config_option) =
      Inr (nest_configuration False ''webpack.config.js'')"
    by (simp add: stub_defs)
  have failed: "loader_load (plain_project \<lparr> loader_load := \<lambda>fileName. Inl (Error (Str ''ENOENT'')) \<rparr>)
      (value config_option) = Inl (Error (Str ''ENOENT''))"
    by simp
  from C7_missing_required_field_raises [OF no_config, of plain_project False False None]
  have 1: "runBuild plain_project [app_input] [] False False None =
      ([], Inl (TypeError (cannot_read ''undefined'' ''value'')))"
    by auto
  from C7_missing_required_field_raises [OF no_app, of plain_project False False None]
  obtain tr err where
    r: "runBuild plain_project [] [config_option] False False None = (tr, Inl err)" and
    k: "\<forall>option configuration.
          find (\<lambda>option. name option = ''config'') [config_option] = Some option \<and>
          loader_load plain_project (value option) = Inr configuration \<longrightarrow>
          tr = [LoaderLoad (value option)] \<and>
          err = TypeError (cannot_read ''undefined'' ''value'')"
    by blast
  from k found loaded
  have "tr = [LoaderLoad (value config_option)] \<and>
      err = TypeError (cannot_read ''undefined'' ''value'')"
    by blast
  with r named
  have 2: "runBuild plain_project [] [config_option] False False None =
      ([LoaderLoad (Str ''nest-cli.json'')],
       Inl (TypeError (cannot_read ''undefined'' ''value'')))"
    by simp
  from C7_missing_required_field_raises [OF no_app,
      of "plain_project \<lparr> loader_load := \<lambda>fileName. Inl (Error (Str ''ENOENT'')) \<rparr>" False False None]
  obtain tr' err' where
    r': "runBuild (plain_project \<lparr> loader_load := \<lambda>fileName. Inl (Error (Str ''ENOENT'')) \<rparr>)
           [] [config_option] False False None = (tr', Inl err')" and
    k': "\<forall>option failure.
          find (\<lambda>option. name option = ''config'') [config_option] = Some option \<and>
          loader_load (plain_project \<lparr> loader_load := \<lambda>fileName. Inl (Error (Str ''ENOENT'')) \<rparr>)
            (value option) = Inl failure \<longrightarrow>
          tr' = [LoaderLoad (value option)] \<and> err' = failure"
    by blast
  from k' found failed
  have "tr' = [LoaderLoad (value config_option)] \<and> err' = Error (Str ''ENOENT'')"
    by blast
  with r' named
  have 3: "runBuild (plain_project \<lparr> loader_load := \<lambda>fileName. Inl (Error (Str ''ENOENT'')) \<rparr>)
       [] [config_option] False False None =
     ([LoaderLoad (Str ''nest-cli.json'')], Inl (Error (Str ''ENOENT'')))"
    by simp
  from no_config 1 no_app 2 3 show ?thesis by (intro conjI)
qed

subsection \<open>The output directory\<close>

text \<open>
  Claim C6, amended. The output directory passed to cleanup and to asset copy is the
  descriptor's \<^verbatim>\<open>outDir\<close> when that value is truthy, and \<^verbatim>\<open>defaultOutDir\<close> otherwise:
  when the descriptor declares none, and also when it declares the empty string.
\<close>

theorem C6_outDir_truthy_or_default:
  assumes run: "runBuild env inputs options watchMode isDebugEnabled onSuccess = (tr, r)"
    and passed: "DeleteOutDirIfEnabled configuration appName outDir \<in> set tr \<or>
                 CopyAssets configuration appName outDir \<in> set tr"
  shows "\<exists>pathToTsconfig descriptor tsOptions declared.
           GetByConfigFilename pathToTsconfig \<in> set tr \<and>
           getByConfigFilename env pathToTsconfig = Inr descriptor \<and>
           getProp descriptor ''options'' = Inr tsOptions \<and>
           getProp tsOptions ''outDir'' = Inr declared \<and>
           outDir = (if truthy declared then declared else Str (defaultOutDir env))"
proof -
  from run consider
      e where "runBuild_prepare env inputs options = (tr, Inl e)"
    | pre locals post where "runBuild_prepare env inputs options = (pre, Inr locals)"
        "runBuild_dispatch env options watchMode isDebugEnabled onSuccess locals = (post, r)"
        "tr = pre @ post"
    by (auto simp: runBuild_eq)
  then show ?thesis
  proof cases
    case 1
    from prepare_outDir [OF 1 passed] show ?thesis .
  next
    case 2
    from dispatch_trace [OF 2(2)] passed 2(3)
    have "DeleteOutDirIfEnabled configuration appName outDir \<in> set pre \<or>
          CopyAssets configuration appName outDir \<in> set pre"
      by auto
    from prepare_outDir [OF 2(1) this] obtain pathToTsconfig descriptor tsOptions declared where
      "GetByConfigFilename pathToTsconfig \<in> set pre"
      "getByConfigFilename env pathToTsconfig = Inr descriptor"
      "getProp descriptor ''options'' = Inr tsOptions"
      "getProp tsOptions ''outDir'' = Inr declared"
      "outDir = (if truthy declared then declared else Str (defaultOutDir env))"
      by blast
    moreover from this(1) 2(3) have "GetByConfigFilename pathToTsconfig \<in> set tr"
      by simp
    ultimately show ?thesis by blast
  qed
qed

theorem C6_outDir_truthy_or_default_witness:
  "runBuild plain_project [app_input] [config_option] False False None =
     ([LoaderLoad (Str ''nest-cli.json''),
       GetByConfigFilename (Str ''tsconfig.build.json''),
       DeleteOutDirIfEnabled (nest_configuration False ''webpack.config.js'') (Str ''api'')
         (Str ''build''),
       CopyAssets (nest_configuration False ''webpack.config.js'') (Str ''api'') (Str ''build''),
       CompilerRun (nest_configuration False ''webpack.config.js'')
         (Str ''tsconfig.build.json'') (Str ''api'') None],
      Inr Undefined) \<and>
   (\<exists>pathToTsconfig descriptor tsOptions declared.
      getByConfigFilename plain_project pathToTsconfig = Inr descriptor \<and>
      getProp descriptor ''options'' = Inr tsOptions \<and>
      getProp tsOptions ''outDir'' = Inr declared \<and>
      Str ''build'' = (if truthy declared then declared else Str (defaultOutDir plain_project)))"
proof -
  have passed: "DeleteOutDirIfEnabled (nest_configuration False ''webpack.config.js'')
        (Str ''api'') (Str ''build'') \<in> set
      [LoaderLoad (Str ''nest-cli.json''),
       GetByConfigFilename (Str ''tsconfig.build.json''),
       DeleteOutDirIfEnabled (nest_configuration False ''webpack.config.js'') (Str ''api'')
         (Str ''build''),
       CopyAssets (nest_configuration False ''webpack.config.js'') (Str ''api'') (Str ''build''),
       CompilerRun (nest_configuration False ''webpack.config.js'')
         (Str ''tsconfig.build.json'') (Str ''api'') None] \<or>
     CopyAssets (nest_configuration False ''webpack.config.js'')
        (Str ''api'') (Str ''build'') \<in> set
      [LoaderLoad (Str ''nest-cli.json''),
       GetByConfigFilename (Str ''tsconfig.build.json''),
       DeleteOutDirIfEnabled (nest_configuration False ''webpack.config.js'') (Str ''api'')
         (Str ''build''),
       CopyAssets (nest_configuration False ''webpack.config.js'') (Str ''api'') (Str ''build''),
       CompilerRun (nest_configuration False ''webpack.config.js'')
         (Str ''tsconfig.build.json'') (Str ''api'') None]"
    by simp
  from C6_outDir_truthy_or_default [OF scenario_one_shot passed]
  show ?thesis
    using scenario_one_shot by blast
qed

text \<open>
  Claim C6 as stated fails when the descriptor declares the empty string: the declared
  output directory is \<^verbatim>\<open>''\<close>, and cleanup and asset copy receive \<^verbatim>\<open>defaultOutDir\<close>.
\<close>

theorem C6_empty_outDir_replaced_by_default:
  "getByConfigFilename empty_outDir_project (Str ''tsconfig.build.json'') =
     Inr (tsconfig_with_outDir (Str [])) \<and>
   getProp (tsconfig_with_outDir (Str [])) ''options'' = Inr (Obj [(''outDir'', Str [])]) \<and>
   getProp (Obj [(''outDir'', Str [])]) ''outDir'' = Inr (Str []) \<and>
   runBuild empty_outDir_project [app_input] [config_option] False False None =
     ([LoaderLoad (Str ''nest-cli.json''),
       GetByConfigFilename (Str ''tsconfig.build.json''),
       DeleteOutDirIfEnabled (nest_configuration False ''webpack.config.js'') (Str ''api'')
         (Str ''dist''),
       CopyAssets (nest_configuration False ''webpack.config.js'') (Str ''api'') (Str ''dist''),
       CompilerRun (nest_configuration False ''webpack.config.js'')
         (Str ''tsconfig.build.json'') (Str ''api'') None],
      Inr Undefined) \<and>
   Str ''dist'' \<noteq> Str []"
  by (simp add: run_defs stub_defs)

subsection \<open>Webpack configuration fallback\<close>

text \<open>
  Claim C1, amended. When the webpack configuration file fails to load and the
  requested path equals the default path, the factory returned by
  \<^verbatim>\<open>getWebpackConfigFactoryByPath\<close> is \<^verbatim>\<open>({}) => ({})\<close>: applied to any base
  configuration object it returns the empty configuration, which is the base
  configuration only when that is empty too.
\<close>

theorem C1_fallback_factory_returns_empty_config:
  assumes fails: "require env (join env (process_cwd env) webpackPath) = Inl err"
  shows "getWebpackConfigFactoryByPath env (Str webpackPath) (Str webpackPath) =
           ([Require (join env (process_cwd env) webpackPath)],
            Inr (Factory empty_config_factory)) \<and>
         apply_factory (Factory empty_config_factory) (Obj props) = Inr (Obj []) \<and>
         (apply_factory (Factory empty_config_factory) (Obj props) = Inr (Obj props)
            \<longleftrightarrow> props = [])"
  using fails
  by (auto simp: getWebpackConfigFactoryByPath_Str empty_config_factory_def)

theorem C1_fallback_factory_returns_empty_config_witness:
  "require webpack_project (join webpack_project (process_cwd webpack_project) ''webpack.config.js'') =
     Inl (Error (Str ''Cannot find module /srv/webpack.config.js'')) \<and>
   getWebpackConfigFactoryByPath webpack_project (Str ''webpack.config.js'')
     (Str ''webpack.config.js'') =
     ([Require ''/srv/webpack.config.js''], Inr (Factory empty_config_factory)) \<and>
   apply_factory (Factory empty_config_factory) (Obj [(''mode'', Str ''production'')]) =
     Inr (Obj [])"
proof -
  have fails: "require webpack_project
      (join webpack_project (process_cwd webpack_project) ''webpack.config.js'') =
      Inl (Error (Str ''Cannot find module /srv/webpack.config.js''))"
    by (simp add: stub_defs)
  from C1_fallback_factory_returns_empty_config [OF fails, of "[(''mode'', Str ''production'')]"]
  show ?thesis
    using fails by (simp add: stub_defs)
qed

text \<open>
  Claim C1 as stated fails: on a failed load at the default path, the factory applied to
  the base configuration \<^verbatim>\<open>{mode: 'production'}\<close> does not return it.
\<close>

theorem C1_fallback_factory_not_identity:
  "require webpack_project (join webpack_project (process_cwd webpack_project) ''webpack.config.js'') =
     Inl (Error (Str ''Cannot find module /srv/webpack.config.js'')) \<and>
   getWebpackConfigFactoryByPath webpack_project (Str ''webpack.config.js'')
     (Str ''webpack.config.js'') =
     ([Require ''/srv/webpack.config.js''], Inr (Factory empty_config_factory)) \<and>
   apply_factory (Factory empty_config_factory) (Obj [(''mode'', Str ''production'')]) \<noteq>
     Inr (Obj [(''mode'', Str ''production'')])"
  by (simp add: getWebpackConfigFactoryByPath_Str empty_config_factory_def stub_defs)

text \<open>
  Claim C2, amended. The path the code treats as the default is the loaded
  configuration's own \<^verbatim>\<open>compilerOptions.webpackConfigPath\<close>. When the first part of
  \<^verbatim>\<open>runBuild\<close> has succeeded, webpack is enabled, the resolved webpack configuration path
  differs from that value and \<^verbatim>\<open>require\<close> of the file fails, \<^verbatim>\<open>runBuild\<close> throws that
  same error, and the trace of the run holds no invocation of a compilation strategy.
\<close>

theorem C2_explicit_path_failure_propagates:
  assumes prepared: "runBuild_prepare env inputs options =
             (pre, Inr (configuration, appName, pathToTsconfig, isWebpackEnabled))"
    and enabled: "truthy isWebpackEnabled"
    and resolved: "getValueOrDefault configuration ''compilerOptions.webpackConfigPath'' appName
             ''webpackPath'' options Undefined = Str webpackPath"
    and has_section: "getProp configuration ''compilerOptions'' = Inr compilerOptions"
    and has_default: "getProp compilerOptions ''webpackConfigPath'' = Inr defaultPath"
    and differs: "Str webpackPath \<noteq> defaultPath"
    and fails: "require env (join env (process_cwd env) webpackPath) = Inl err"
  shows "runBuild env inputs options watchMode isDebugEnabled onSuccess =
           (pre @ [Require (join env (process_cwd env) webpackPath)], Inl err) \<and>
         strategies_invoked (pre @ [Require (join env (process_cwd env) webpackPath)]) = []"
proof -
  have "runBuild_dispatch env options watchMode isDebugEnabled onSuccess
          (configuration, appName, pathToTsconfig, isWebpackEnabled) =
        ([Require (join env (process_cwd env) webpackPath)], Inl err)"
    using enabled resolved has_section has_default differs fails
    by (simp add: runBuild_dispatch_def io_bind_simps getWebpackConfigFactoryByPath_Str)
  moreover have "strategies_invoked pre = []"
    using prepared by (simp add: prepare_quiet)
  ultimately show ?thesis
    using prepared by (simp add: runBuild_prepared strategies_invoked_append)
qed

theorem C2_explicit_path_failure_propagates_witness:
  "runBuild_prepare webpack_project [app_input] [config_option, webpackPath_option] =
     ([LoaderLoad (Str ''nest-cli.json''),
       GetByConfigFilename (Str ''tsconfig.build.json''),
       DeleteOutDirIfEnabled (nest_configuration True ''webpack.config.js'') (Str ''api'')
         (Str ''build''),
       CopyAssets (nest_configuration True ''webpack.config.js'') (Str ''api'') (Str ''build'')],
      Inr (nest_configuration True ''webpack.config.js'', Str ''api'',
           Str ''tsconfig.build.json'', Bool True)) \<and>
   truthy (Bool True) \<and>
   getValueOrDefault (nest_configuration True ''webpack.config.js'')
     ''compilerOptions.webpackConfigPath'' (Str ''api'') ''webpackPath''
     [config_option, webpackPath_option] Undefined = Str ''custom.webpack.js'' \<and>
   getProp (nest_configuration True ''webpack.config.js'') ''compilerOptions'' =
     Inr (Obj [(''tsConfigPath'', Str ''tsconfig.build.json''), (''webpack'', Bool True),
               (''webpackConfigPath'', Str ''webpack.config.js'')]) \<and>
   getProp (Obj [(''tsConfigPath'', Str ''tsconfig.build.json''), (''webpack'', Bool True),
                 (''webpackConfigPath'', Str ''webpack.config.js'')]) ''webpackConfigPath'' =
     Inr (Str ''webpack.config.js'') \<and>
   Str ''custom.webpack.js'' \<noteq> Str ''webpack.config.js'' \<and>
   require webpack_project
     (join webpack_project (process_cwd webpack_project) ''custom.webpack.js'') =
     Inl (Error (Str ''Cannot find module /srv/custom.webpack.js'')) \<and>
   runBuild webpack_project [app_input] [config_option, webpackPath_option] False False None =
     ([LoaderLoad (Str ''nest-cli.json''),
       GetByConfigFilename (Str ''tsconfig.build.json''),
       DeleteOutDirIfEnabled (nest_configuration True ''webpack.config.js'') (Str ''api'')
         (Str ''build''),
       CopyAssets (nest_configuration True ''webpack.config.js'') (Str ''api'') (Str ''build''),
       Require ''/srv/custom.webpack.js''],
      Inl (Error (Str ''Cannot find module /srv/custom.webpack.js''))) \<and>
   strategies_invoked
     [LoaderLoad (Str ''nest-cli.json''),
      GetByConfigFilename (Str ''tsconfig.build.json''),
      DeleteOutDirIfEnabled (nest_configuration True ''webpack.config.js'') (Str ''api'')
        (Str ''build''),
      CopyAssets (nest_configuration True ''webpack.config.js'') (Str ''api'') (Str ''build''),
      Require ''/srv/custom.webpack.js''] = []"
proof -
  have prepared: "runBuild_prepare webpack_project [app_input] [config_option, webpackPath_option] =
     ([LoaderLoad (Str ''nest-cli.json''),
       GetByConfigFilename (Str ''tsconfig.build.json''),
       DeleteOutDirIfEnabled (nest_configuration True ''webpack.config.js'') (Str ''api'')
         (Str ''build''),
       CopyAssets (nest_configuration True ''webpack.config.js'') (Str ''api'') (Str ''build'')],
      Inr (nest_configuration True ''webpack.config.js'', Str ''api'',
           Str ''tsconfig.build.json'', Bool True))"
    by (simp add: run_defs stub_defs)
  have enabled: "truthy (Bool True)" by simp
  have resolved: "getValueOrDefault (nest_configuration True ''webpack.config.js'')
     ''compilerOptions.webpackConfigPath'' (Str ''api'') ''webpackPath''
     [config_option, webpackPath_option] Undefined = Str ''custom.webpack.js''"
    by (simp add: getValueOrDefault_def stub_defs)
  have has_section: "getProp (nest_configuration True ''webpack.config.js'') ''compilerOptions'' =
     Inr (Obj [(''tsConfigPath'', Str ''tsconfig.build.json''), (''webpack'', Bool True),
               (''webpackConfigPath'', Str ''webpack.config.js'')])"
    by (simp add: stub_defs)
  have has_default: "getProp (Obj [(''tsConfigPath'', Str ''tsconfig.build.json''),
       (''webpack'', Bool True), (''webpackConfigPath'', Str ''webpack.config.js'')])
       ''webpackConfigPath'' = Inr (Str ''webpack.config.js'')"
    by simp
  have differs: "Str ''custom.webpack.js'' \<noteq> Str ''webpack.config.js''" by simp
  have fails: "require webpack_project
     (join webpack_project (process_cwd webpack_project) ''custom.webpack.js'') =
     Inl (Error (Str ''Cannot find module /srv/custom.webpack.js''))"
    by (simp add: stub_defs)
  from C2_explicit_path_failure_propagates
    [OF prepared enabled resolved has_section has_default differs fails, of False False None]
  show ?thesis
    using prepared resolved has_section fails by (simp add: stub_defs)
qed

text \<open>
  Claim C2 as stated fails when the path is declared in the configuration and no option
  overrides it. Two runs, one with \<^verbatim>\<open>custom.webpack.js\<close> and one with
  \<^verbatim>\<open>webpack.config.js\<close> as the configuration's path, no file at either: each resolves
  its path, fails to load it, swallows the error and invokes bundling. Whichever single
  path is the system default, the path of one of the two runs differs from it.
\<close>

theorem C2_configured_path_failure_swallowed:
  "getValueOrDefault (nest_configuration True ''custom.webpack.js'')
     ''compilerOptions.webpackConfigPath'' (Str ''api'') ''webpackPath'' [config_option]
     Undefined = Str ''custom.webpack.js'' \<and>
   require custom_webpack_project
     (join custom_webpack_project (process_cwd custom_webpack_project) ''custom.webpack.js'') =
     Inl (Error (Str ''Cannot find module /srv/custom.webpack.js'')) \<and>
   runBuild custom_webpack_project [app_input] [config_option] False False None =
     ([LoaderLoad (Str ''nest-cli.json''),
       GetByConfigFilename (Str ''tsconfig.build.json''),
       DeleteOutDirIfEnabled (nest_configuration True ''custom.webpack.js'') (Str ''api'')
         (Str ''build''),
       CopyAssets (nest_configuration True ''custom.webpack.js'') (Str ''api'') (Str ''build''),
       Require ''/srv/custom.webpack.js'',
       WebpackCompilerRun (nest_configuration True ''custom.webpack.js'')
         (Factory empty_config_factory) (Str ''tsconfig.build.json'') (Str ''api'')
         False False None],
      Inr Undefined) \<and>
   strategies_invoked
     (fst (runBuild custom_webpack_project [app_input] [config_option] False False None)) =
     [Bundling] \<and>
   getValueOrDefault (nest_configuration True ''webpack.config.js'')
     ''compilerOptions.webpackConfigPath'' (Str ''api'') ''webpackPath'' [config_option]
     Undefined = Str ''webpack.config.js'' \<and>
   require webpack_project
     (join webpack_project (process_cwd webpack_project) ''webpack.config.js'') =
     Inl (Error (Str ''Cannot find module /srv/webpack.config.js'')) \<and>
   strategies_invoked
     (fst (runBuild webpack_project [app_input] [config_option] False False None)) =
     [Bundling] \<and>
   snd (runBuild webpack_project [app_input] [config_option] False False None) =
     Inr Undefined \<and>
   ''custom.webpack.js'' \<noteq> ''webpack.config.js''"
  by (simp add: run_defs stub_defs)

text \<open>
  Claim C9. In the webpack branch the default path is read from the loaded
  configuration as \<^verbatim>\<open>configuration.compilerOptions!.webpackConfigPath!\<close>. If the
  configuration has no \<^verbatim>\<open>compilerOptions\<close>, the read throws a \<^verbatim>\<open>TypeError\<close>: nothing
  was required and no strategy was invoked. If it has, a failing load at the resolved
  path is swallowed exactly when the resolved path equals that value, and is thrown
  otherwise.
\<close>

theorem C9_default_path_read_unchecked:
  assumes prepared: "runBuild_prepare env inputs options =
             (pre, Inr (configuration, appName, pathToTsconfig, isWebpackEnabled))"
    and enabled: "truthy isWebpackEnabled"
  shows "(getProp configuration ''compilerOptions'' = Inr Undefined \<longrightarrow>
            runBuild env inputs options watchMode isDebugEnabled onSuccess =
              (pre, Inl (TypeError (cannot_read ''undefined'' ''webpackConfigPath''))) \<and>
            strategies_invoked pre = [] \<and> (\<forall>p. Require p \<notin> set pre)) \<and>
         (\<forall>compilerOptions defaultPath webpackPath err.
            getProp configuration ''compilerOptions'' = Inr compilerOptions \<and>
            getProp compilerOptions ''webpackConfigPath'' = Inr defaultPath \<and>
            getValueOrDefault configuration ''compilerOptions.webpackConfigPath'' appName
              ''webpackPath'' options Undefined = Str webpackPath \<and>
            require env (join env (process_cwd env) webpackPath) = Inl err \<longrightarrow>
            runBuild env inputs options watchMode isDebugEnabled onSuccess =
              (if Str webpackPath = defaultPath
               then (pre @ [Require (join env (process_cwd env) webpackPath),
                            WebpackCompilerRun configuration (Factory empty_config_factory)
                              pathToTsconfig appName isDebugEnabled watchMode onSuccess],
                     webpackCompiler_run env configuration (Factory empty_config_factory)
                       pathToTsconfig appName isDebugEnabled watchMode onSuccess)
               else (pre @ [Require (join env (process_cwd env) webpackPath)], Inl err)))"
  using prepared enabled prepare_quiet [OF prepared]
  by (auto simp: runBuild_prepared runBuild_dispatch_def io_bind_simps io_call_def
      getWebpackConfigFactoryByPath_Str)

theorem C9_default_path_read_unchecked_witness:
  "runBuild_prepare bare_project [app_input] [config_option, webpack_option] =
     ([LoaderLoad (Str ''nest-cli.json''), GetByConfigFilename Undefined,
       DeleteOutDirIfEnabled (Obj []) (Str ''api'') (Str ''dist''),
       CopyAssets (Obj []) (Str ''api'') (Str ''dist'')],
      Inr (Obj [], Str ''api'', Undefined, Bool True)) \<and>
   truthy (Bool True) \<and>
   getProp (Obj []) ''compilerOptions'' = Inr Undefined \<and>
   runBuild bare_project [app_input] [config_option, webpack_option] False False None =
     ([LoaderLoad (Str ''nest-cli.json''), GetByConfigFilename Undefined,
       DeleteOutDirIfEnabled (Obj []) (Str ''api'') (Str ''dist''),
       CopyAssets (Obj []) (Str ''api'') (Str ''dist'')],
      Inl (TypeError (cannot_read ''undefined'' ''webpackConfigPath''))) \<and>
   runBuild_prepare webpack_project [app_input] [config_option] =
     ([LoaderLoad (Str ''nest-cli.json''),
       GetByConfigFilename (Str ''tsconfig.build.json''),
       DeleteOutDirIfEnabled (nest_configuration True ''webpack.config.js'') (Str ''api'')
         (Str ''build''),
       CopyAssets (nest_configuration True ''webpack.config.js'') (Str ''api'') (Str ''build'')],
      Inr (nest_configuration True ''webpack.config.js'', Str ''api'',
           Str ''tsconfig.build.json'', Bool True)) \<and>
   require webpack_project
     (join webpack_project (process_cwd webpack_project) ''webpack.config.js'') =
     Inl (Error (Str ''Cannot find module /srv/webpack.config.js'')) \<and>
   runBuild webpack_project [app_input] [config_option] False False None =
     ([LoaderLoad (Str ''nest-cli.json''),
       GetByConfigFilename (Str ''tsconfig.build.json''),
       DeleteOutDirIfEnabled (nest_configuration True ''webpack.config.js'') (Str ''api'')
         (Str ''build''),
       CopyAssets (nest_configuration True ''webpack.config.js'') (Str ''api'') (Str ''build''),
       Require ''/srv/webpack.config.js'',
       WebpackCompilerRun (nest_configuration True ''webpack.config.js'')
         (Factory empty_config_factory) (Str ''tsconfig.build.json'') (Str ''api'')
         False False None],
      Inr Undefined)"
proof -
  have bare: "runBuild_prepare bare_project [app_input] [config_option, webpack_option] =
     ([LoaderLoad (Str ''nest-cli.json''), GetByConfigFilename Undefined,
       DeleteOutDirIfEnabled (Obj []) (Str ''api'') (Str ''dist''),
       CopyAssets (Obj []) (Str ''api'') (Str ''dist'')],
      Inr (Obj [], Str ''api'', Undefined, Bool True))"
    by (simp add: run_defs stub_defs)
  have enabled: "truthy (Bool True)" by simp
  have absent: "getProp (Obj []) ''compilerOptions'' = Inr Undefined" by simp
  from C9_default_path_read_unchecked [OF bare enabled, of False False None] absent
  have 1: "runBuild bare_project [app_input] [config_option, webpack_option] False False None =
     ([LoaderLoad (Str ''nest-cli.json''), GetByConfigFilename Undefined,
       DeleteOutDirIfEnabled (Obj []) (Str ''api'') (Str ''dist''),
       CopyAssets (Obj []) (Str ''api'') (Str ''dist'')],
      Inl (TypeError (cannot_read ''undefined'' ''webpackConfigPath'')))"
    by blast
  have prepared: "runBuild_prepare webpack_project [app_input] [config_option] =
     ([LoaderLoad (Str ''nest-cli.json''),
       GetByConfigFilename (Str ''tsconfig.build.json''),
       DeleteOutDirIfEnabled (nest_configuration True ''webpack.config.js'') (Str ''api'')
         (Str ''build''),
       CopyAssets (nest_configuration True ''webpack.config.js'') (Str ''api'') (Str ''build'')],
      Inr (nest_configuration True ''webpack.config.js'', Str ''api'',
           Str ''tsconfig.build.json'', Bool True))"
    by (simp add: run_defs stub_defs)
  have has_section: "getProp (nest_configuration True ''webpack.config.js'') ''compilerOptions'' =
     Inr (Obj [(''tsConfigPath'', Str ''tsconfig.build.json''), (''webpack'', Bool True),
               (''webpackConfigPath'', Str ''webpack.config.js'')])"
    by (simp add: stub_defs)
  have has_default: "getProp (Obj [(''tsConfigPath'', Str ''tsconfig.build.json''),
       (''webpack'', Bool True), (''webpackConfigPath'', Str ''webpack.config.js'')])
       ''webpackConfigPath'' = Inr (Str ''webpack.config.js'')"
    by simp
  have resolved: "getValueOrDefault (nest_configuration True ''webpack.config.js'')
     ''compilerOptions.webpackConfigPath'' (Str ''api'') ''webpackPath''
     [config_option] Undefined = Str ''webpack.config.js''"
    by (simp add: getValueOrDefault_def perApplicationSection_def stub_defs)
  have fails: "require webpack_project
     (join webpack_project (process_cwd webpack_project) ''webpack.config.js'') =
     Inl (Error (Str ''Cannot find module /srv/webpack.config.js''))"
    by (simp add: stub_defs)
  from C9_default_path_read_unchecked [OF prepared enabled, of False False None]
  have "\<forall>compilerOptions defaultPath webpackPath err.
          getProp (nest_configuration True ''webpack.config.js'') ''compilerOptions'' =
            Inr compilerOptions \<and>
          getProp compilerOptions ''webpackConfigPath'' = Inr defaultPath \<and>
          getValueOrDefault (nest_configuration True ''webpack.config.js'')
            ''compilerOptions.webpackConfigPath'' (Str ''api'') ''webpackPath''
            [config_option] Undefined = Str webpackPath \<and>
          require webpack_project
            (join webpack_project (process_cwd webpack_project) webpackPath) = Inl err \<longrightarrow>
          runBuild webpack_project [app_input] [config_option] False False None =
            (if Str webpackPath = defaultPath
             then ([LoaderLoad (Str ''nest-cli.json''),
                    GetByConfigFilename (Str ''tsconfig.build.json''),
                    DeleteOutDirIfEnabled (nest_configuration True ''webpack.config.js'')
                      (Str ''api'') (Str ''build''),
                    CopyAssets (nest_configuration True ''webpack.config.js'') (Str ''api'')
                      (Str ''build'')] @
                   [Require (join webpack_project (process_cwd webpack_project) webpackPath),
                    WebpackCompilerRun (nest_configuration True ''webpack.config.js'')
                      (Factory empty_config_factory) (Str ''tsconfig.build.json'') (Str ''api'')
                      False False None],
                   webpackCompiler_run webpack_project
                     (nest_configuration True ''webpack.config.js'')
                     (Factory empty_config_factory) (Str ''tsconfig.build.json'') (Str ''api'')
                     False False None)
             else ([LoaderLoad (Str ''nest-cli.json''),
                    GetByConfigFilename (Str ''tsconfig.build.json''),
                    DeleteOutDirIfEnabled (nest_configuration True ''webpack.config.js'')
                      (Str ''api'') (Str ''build''),
                    CopyAssets (nest_configuration True ''webpack.config.js'') (Str ''api'')
                      (Str ''build'')] @
                   [Require (join webpack_project (process_cwd webpack_project) webpackPath)],
                   Inl err))"
    by (rule conjunct2)
  with has_section has_default resolved fails
  have 2: "runBuild webpack_project [app_input] [config_option] False False None =
     ([LoaderLoad (Str ''nest-cli.json''),
       GetByConfigFilename (Str ''tsconfig.build.json''),
       DeleteOutDirIfEnabled (nest_configuration True ''webpack.config.js'') (Str ''api'')
         (Str ''build''),
       CopyAssets (nest_configuration True ''webpack.config.js'') (Str ''api'') (Str ''build''),
       Require ''/srv/webpack.config.js'',
       WebpackCompilerRun (nest_configuration True ''webpack.config.js'')
         (Factory empty_config_factory) (Str ''tsconfig.build.json'') (Str ''api'')
         False False None],
      Inr Undefined)"
    by (simp add: scenario_default_webpack_file)
  from bare enabled absent 1 prepared fails 2 show ?thesis by (intro conjI)
qed

subsection \<open>The value resolver\<close>

text \<open>
  Claim C8. If the options list has an entry with the requested name and a value that
  is set, \<^verbatim>\<open>getValueOrDefault\<close> returns the value of such an entry, whatever the
  configuration, the application name, the path and the fallback are; when that entry
  is the only one of its name, it is that entry's value.
\<close>

theorem C8_option_takes_precedence:
  assumes present: "entry \<in> set options"
    and named: "name entry = key"
    and is_set: "value entry \<noteq> Undefined"
  shows "(\<exists>chosen \<in> set options.
            name chosen = key \<and> value chosen \<noteq> Undefined \<and>
            getValueOrDefault configuration propertyPath appName key options defaultValue =
              value chosen) \<and>
         ((\<forall>other \<in> set options. name other = key \<longrightarrow> other = entry) \<longrightarrow>
            getValueOrDefault configuration propertyPath appName key options defaultValue =
              value entry)"
proof -
  from present named is_set
  have "find (\<lambda>option. name option = key \<and> value option \<noteq> Undefined) options \<noteq> None"
    by (auto simp: find_None_iff)
  then obtain chosen where
    c: "find (\<lambda>option. name option = key \<and> value option \<noteq> Undefined) options = Some chosen"
    by auto
  then have "chosen \<in> set options" "name chosen = key" "value chosen \<noteq> Undefined"
    by (auto simp: find_Some_iff)
  moreover from c have
    "getValueOrDefault configuration propertyPath appName key options defaultValue = value chosen"
    by (simp add: getValueOrDefault_def)
  ultimately show ?thesis by auto
qed

theorem C8_option_takes_precedence_witness:
  "path_option \<in> set [config_option, path_option] \<and>
   name path_option = ''path'' \<and>
   value path_option \<noteq> Undefined \<and>
   name config_option \<noteq> ''path'' \<and>
   getValueOrDefault monorepo_configuration ''compilerOptions.tsConfigPath'' (Str ''api'') ''path''
     [config_option, path_option] Undefined = Str ''tsconfig.app.json''"
proof -
  have present: "path_option \<in> set [config_option, path_option]" by simp
  have named: "name path_option = ''path''" by (simp add: stub_defs)
  have is_set: "value path_option \<noteq> Undefined" by (simp add: stub_defs)
  have only: "\<forall>other \<in> set [config_option, path_option]. name other = ''path'' \<longrightarrow> other = path_option"
    by (simp add: stub_defs)
  have v: "value path_option = Str ''tsconfig.app.json''" by (simp add: stub_defs)
  have other: "name config_option \<noteq> ''path''" by (simp add: stub_defs)
  from C8_option_takes_precedence [OF present named is_set,
      of monorepo_configuration "''compilerOptions.tsConfigPath''" "Str ''api''" Undefined] only
  have "getValueOrDefault monorepo_configuration ''compilerOptions.tsConfigPath'' (Str ''api'')
      ''path'' [config_option, path_option] Undefined = value path_option"
    by blast
  with present named is_set other v show ?thesis by simp
qed

subsection \<open>The entry point\<close>

text \<open>
  Claim C5, amended. When \<^verbatim>\<open>runBuild\<close> throws, \<^verbatim>\<open>handle\<close> catches the error and
  converts its message to a string: \<^verbatim>\<open>err.message\<close> for an instance of \<^verbatim>\<open>Error\<close>,
  \<^verbatim>\<open>chalk.red(err)\<close> for any other thrown value. If the conversion succeeds, \<^verbatim>\<open>handle\<close>
  prints one message after the calls \<^verbatim>\<open>runBuild\<close> made and returns normally; an
  \<^verbatim>\<open>Error\<close> whose message is a string is always printed so. If the conversion throws,
  nothing is printed and the error of the conversion leaves \<^verbatim>\<open>handle\<close>; \<^verbatim>\<open>handle\<close>
  throws in no other case. When \<^verbatim>\<open>runBuild\<close> returns, \<^verbatim>\<open>handle\<close> prints nothing and
  returns; this is also so when the watch or one-shot run, which nothing awaits, has
  handed back a promise that rejects.
\<close>

theorem C5_handle_rethrows_only_rendering_errors:
  "(\<forall>tr err.
      runBuild env inputs options (watchModeOf options) False None = (tr, Inl err) \<longrightarrow>
      handle env inputs options =
        (if instanceof_Error err
         then (case to_string (message err) of
                 Inr line \<Rightarrow>
                   (tr @ [ConsoleLog ([CHR 0x0A] @ ERROR_PREFIX env @ '' '' @ line @ [CHR 0x0A])],
                    Inr ())
               | Inl failure \<Rightarrow> (tr, Inl failure))
         else (case chalk_red env err of
                 Inr line \<Rightarrow> (tr @ [ConsoleError ([CHR 0x0A] @ line @ [CHR 0x0A])], Inr ())
               | Inl failure \<Rightarrow> (tr, Inl failure)))) \<and>
   (\<forall>tr err line.
      runBuild env inputs options (watchModeOf options) False None = (tr, Inl err) \<and>
      instanceof_Error err \<and> message err = Str line \<longrightarrow>
      handle env inputs options =
        (tr @ [ConsoleLog ([CHR 0x0A] @ ERROR_PREFIX env @ '' '' @ line @ [CHR 0x0A])],
         Inr ())) \<and>
   (\<forall>tr v.
      runBuild env inputs options (watchModeOf options) False None = (tr, Inr v) \<longrightarrow>
      handle env inputs options = (tr, Inr ())) \<and>
   (\<forall>failure.
      snd (handle env inputs options) = Inl failure \<longrightarrow>
      (\<exists>tr err.
         runBuild env inputs options (watchModeOf options) False None = (tr, Inl err) \<and>
         handle env inputs options = (tr, Inl failure) \<and>
         (if instanceof_Error err then to_string (message err) else chalk_red env err) =
           Inl failure)) \<and>
   (\<forall>pre configuration appName pathToTsconfig isWebpackEnabled rejection.
      runBuild_prepare env inputs options =
        (pre, Inr (configuration, appName, pathToTsconfig, isWebpackEnabled)) \<and>
      \<not> truthy isWebpackEnabled \<and>
      (if watchModeOf options
       then watchCompiler_run env configuration pathToTsconfig appName None
       else compiler_run env configuration pathToTsconfig appName None) =
        Inr (ReturnedRejecting rejection) \<longrightarrow>
      handle env inputs options =
        (pre @ [if watchModeOf options
                then WatchCompilerRun configuration pathToTsconfig appName None
                else CompilerRun configuration pathToTsconfig appName None],
         Inr ()))"
proof -
  have caught: "handle env inputs options =
      (if instanceof_Error err
       then (case to_string (message err) of
               Inr line \<Rightarrow>
                 (tr @ [ConsoleLog ([CHR 0x0A] @ ERROR_PREFIX env @ '' '' @ line @ [CHR 0x0A])],
                  Inr ())
             | Inl failure \<Rightarrow> (tr, Inl failure))
       else (case chalk_red env err of
               Inr line \<Rightarrow> (tr @ [ConsoleError ([CHR 0x0A] @ line @ [CHR 0x0A])], Inr ())
             | Inl failure \<Rightarrow> (tr, Inl failure)))"
    if "runBuild env inputs options (watchModeOf options) False None = (tr, Inl err)"
    for tr err
    using that
    by (simp add: handle_def handle_catch_def Let_def io_bind_def io_catch_def io_call_def
        io_lift_def io_return_def split: sum.splits)
  have returned: "handle env inputs options = (tr, Inr ())"
    if "runBuild env inputs options (watchModeOf options) False None = (tr, Inr v)"
    for tr v
    using that by (simp add: handle_def Let_def io_bind_def io_catch_def io_return_def)
  have rendered: "handle env inputs options =
      (tr @ [ConsoleLog ([CHR 0x0A] @ ERROR_PREFIX env @ '' '' @ line @ [CHR 0x0A])], Inr ())"
    if "runBuild env inputs options (watchModeOf options) False None = (tr, Inl err)"
      "instanceof_Error err" "message err = Str line"
    for tr err line
    using caught [OF that(1)] that(2,3) by simp
  have rethrown: "\<exists>tr err.
      runBuild env inputs options (watchModeOf options) False None = (tr, Inl err) \<and>
      handle env inputs options = (tr, Inl failure) \<and>
      (if instanceof_Error err then to_string (message err) else chalk_red env err) =
        Inl failure"
    if f: "snd (handle env inputs options) = Inl failure" for failure
  proof (cases "runBuild env inputs options (watchModeOf options) False None")
    case (Pair tr r)
    show ?thesis
    proof (cases r)
      case (Inl err)
      with Pair caught [of tr err] f show ?thesis
        by (auto split: if_splits sum.splits)
    next
      case (Inr v)
      with Pair returned [of tr v] f show ?thesis by simp
    qed
  qed
  have discarded: "handle env inputs options =
      (pre @ [if watchModeOf options
              then WatchCompilerRun configuration pathToTsconfig appName None
              else CompilerRun configuration pathToTsconfig appName None],
       Inr ())"
    if p: "runBuild_prepare env inputs options =
        (pre, Inr (configuration, appName, pathToTsconfig, isWebpackEnabled))"
      and w: "\<not> truthy isWebpackEnabled"
      and r: "(if watchModeOf options
         then watchCompiler_run env configuration pathToTsconfig appName None
         else compiler_run env configuration pathToTsconfig appName None) =
        Inr (ReturnedRejecting rejection)"
    for pre configuration appName pathToTsconfig isWebpackEnabled rejection
  proof -
    from w r have "runBuild_dispatch env options (watchModeOf options) False None
        (configuration, appName, pathToTsconfig, isWebpackEnabled) =
        ([if watchModeOf options
          then WatchCompilerRun configuration pathToTsconfig appName None
          else CompilerRun configuration pathToTsconfig appName None],
         Inr Undefined)"
      by (simp add: runBuild_dispatch_def io_bind_simps io_return_def split: if_splits)
    with p have "runBuild env inputs options (watchModeOf options) False None =
        (pre @ [if watchModeOf options
                then WatchCompilerRun configuration pathToTsconfig appName None
                else CompilerRun configuration pathToTsconfig appName None],
         Inr Undefined)"
      by (simp add: runBuild_prepared)
    then show ?thesis by (rule returned)
  qed
  show ?thesis
  proof (intro conjI allI impI)
    fix tr err
    assume "runBuild env inputs options (watchModeOf options) False None = (tr, Inl err)"
    then show "handle env inputs options =
      (if instanceof_Error err
       then (case to_string (message err) of
               Inr line \<Rightarrow>
                 (tr @ [ConsoleLog ([CHR 0x0A] @ ERROR_PREFIX env @ '' '' @ line @ [CHR 0x0A])],
                  Inr ())
             | Inl failure \<Rightarrow> (tr, Inl failure))
       else (case chalk_red env err of
               Inr line \<Rightarrow> (tr @ [ConsoleError ([CHR 0x0A] @ line @ [CHR 0x0A])], Inr ())
             | Inl failure \<Rightarrow> (tr, Inl failure)))"
      by (rule caught)
  next
    fix tr err line
    assume "runBuild env inputs options (watchModeOf options) False None = (tr, Inl err) \<and>
      instanceof_Error err \<and> message err = Str line"
    then show "handle env inputs options =
      (tr @ [ConsoleLog ([CHR 0x0A] @ ERROR_PREFIX env @ '' '' @ line @ [CHR 0x0A])], Inr ())"
      using rendered by blast
  next
    fix tr v
    assume "runBuild env inputs options (watchModeOf options) False None = (tr, Inr v)"
    then show "handle env inputs options = (tr, Inr ())"
      by (rule returned)
  next
    fix failure
    assume "snd (handle env inputs options) = Inl failure"
    then show "\<exists>tr err.
      runBuild env inputs options (watchModeOf options) False None = (tr, Inl err) \<and>
      handle env inputs options = (tr, Inl failure) \<and>
      (if instanceof_Error err then to_string (message err) else chalk_red env err) =
        Inl failure"
      by (rule rethrown)
  next
    fix pre configuration appName pathToTsconfig isWebpackEnabled rejection
    assume "runBuild_prepare env inputs options =
        (pre, Inr (configuration, appName, pathToTsconfig, isWebpackEnabled)) \<and>
      \<not> truthy isWebpackEnabled \<and>
      (if watchModeOf options
       then watchCompiler_run env configuration pathToTsconfig appName None
       else compiler_run env configuration pathToTsconfig appName None) =
        Inr (ReturnedRejecting rejection)"
    then show "handle env inputs options =
      (pre @ [if watchModeOf options
              then WatchCompilerRun configuration pathToTsconfig appName None
              else CompilerRun configuration pathToTsconfig appName None],
       Inr ())"
      using discarded by blast
  qed
qed

theorem C5_handle_rethrows_only_rendering_errors_witness:
  "runBuild plain_project [app_input] [] (watchModeOf []) False None =
     ([], Inl (TypeError (cannot_read ''undefined'' ''value''))) \<and>
   handle plain_project [app_input] [] =
     ([ConsoleLog ([CHR 0x0A] @ ''Error Cannot read properties of undefined (reading ''
         @ [CHR 0x27] @ ''value'' @ [CHR 0x27] @ '')'' @ [CHR 0x0A])],
      Inr ()) \<and>
   runBuild (failing_loader_project (Thrown (Str ''boom''))) [app_input] [config_option]
     (watchModeOf [config_option]) False None =
     ([LoaderLoad (Str ''nest-cli.json'')], Inl (Thrown (Str ''boom''))) \<and>
   handle (failing_loader_project (Thrown (Str ''boom''))) [app_input] [config_option] =
     ([LoaderLoad (Str ''nest-cli.json''), ConsoleError ([CHR 0x0A] @ ''boom'' @ [CHR 0x0A])],
      Inr ()) \<and>
   runBuild plain_project [app_input] [config_option] (watchModeOf [config_option]) False None =
     ([LoaderLoad (Str ''nest-cli.json''),
       GetByConfigFilename (Str ''tsconfig.build.json''),
       DeleteOutDirIfEnabled (nest_configuration False ''webpack.config.js'') (Str ''api'')
         (Str ''build''),
       CopyAssets (nest_configuration False ''webpack.config.js'') (Str ''api'') (Str ''build''),
       CompilerRun (nest_configuration False ''webpack.config.js'')
         (Str ''tsconfig.build.json'') (Str ''api'') None],
      Inr Undefined) \<and>
   handle plain_project [app_input] [config_option] =
     ([LoaderLoad (Str ''nest-cli.json''),
       GetByConfigFilename (Str ''tsconfig.build.json''),
       DeleteOutDirIfEnabled (nest_configuration False ''webpack.config.js'') (Str ''api'')
         (Str ''build''),
       CopyAssets (nest_configuration False ''webpack.config.js'') (Str ''api'') (Str ''build''),
       CompilerRun (nest_configuration False ''webpack.config.js'')
         (Str ''tsconfig.build.json'') (Str ''api'') None],
      Inr ()) \<and>
   runBuild (failing_loader_project (Thrown (Symbol ''boom''))) [app_input] [config_option]
     (watchModeOf [config_option]) False None =
     ([LoaderLoad (Str ''nest-cli.json'')], Inl (Thrown (Symbol ''boom''))) \<and>
   chalk_red (failing_loader_project (Thrown (Symbol ''boom''))) (Thrown (Symbol ''boom'')) =
     Inl (TypeError ''Cannot convert a Symbol value to a string'') \<and>
   handle (failing_loader_project (Thrown (Symbol ''boom''))) [app_input] [config_option] =
     ([LoaderLoad (Str ''nest-cli.json'')],
      Inl (TypeError ''Cannot convert a Symbol value to a string'')) \<and>
   compiler_run (rejecting_compiler_project (Error (Str ''boom'')))
     (nest_configuration False ''webpack.config.js'') (Str ''tsconfig.build.json'') (Str ''api'')
     None = Inr (ReturnedRejecting (Error (Str ''boom''))) \<and>
   handle (rejecting_compiler_project (Error (Str ''boom''))) [app_input] [config_option] =
     ([LoaderLoad (Str ''nest-cli.json''),
       GetByConfigFilename (Str ''tsconfig.build.json''),
       DeleteOutDirIfEnabled (nest_configuration False ''webpack.config.js'') (Str ''api'')
         (Str ''build''),
       CopyAssets (nest_configuration False ''webpack.config.js'') (Str ''api'') (Str ''build''),
       CompilerRun (nest_configuration False ''webpack.config.js'')
         (Str ''tsconfig.build.json'') (Str ''api'') None],
      Inr ())"
proof -
  have w: "watchModeOf [config_option] = False"
    by (simp add: watchModeOf_def stub_defs)
  have thrown: "runBuild plain_project [app_input] [] (watchModeOf []) False None =
      ([], Inl (TypeError (cannot_read ''undefined'' ''value'')))"
    by (simp add: run_defs)
  have "handle plain_project [app_input] [] =
      ([] @ [ConsoleLog ([CHR 0x0A] @ ERROR_PREFIX plain_project @ '' '' @
         cannot_read ''undefined'' ''value'' @ [CHR 0x0A])], Inr ())"
    by (rule C5_handle_rethrows_only_rendering_errors [of plain_project "[app_input]" "[]", THEN conjunct2, THEN conjunct1,
          rule_format, of _ "TypeError (cannot_read ''undefined'' ''value'')"])
      (simp add: thrown)
  then have 1: "handle plain_project [app_input] [] =
     ([ConsoleLog ([CHR 0x0A] @ ''Error Cannot read properties of undefined (reading ''
         @ [CHR 0x27] @ ''value'' @ [CHR 0x27] @ '')'' @ [CHR 0x0A])],
      Inr ())"
    by (simp add: cannot_read_def stub_defs)
  have other: "runBuild (failing_loader_project (Thrown (Str ''boom''))) [app_input]
      [config_option] (watchModeOf [config_option]) False None =
     ([LoaderLoad (Str ''nest-cli.json'')], Inl (Thrown (Str ''boom'')))"
    by (simp add: w run_defs stub_defs)
  have red_boom: "chalk_red (failing_loader_project (Thrown (Str ''boom'')))
      (Thrown (Str ''boom'')) = Inr ''boom''"
    by (simp add: stub_defs)
  from C5_handle_rethrows_only_rendering_errors [of "failing_loader_project (Thrown (Str ''boom''))" "[app_input]"
      "[config_option]", THEN conjunct1, rule_format, OF other]
  have 2: "handle (failing_loader_project (Thrown (Str ''boom''))) [app_input] [config_option] =
     ([LoaderLoad (Str ''nest-cli.json''), ConsoleError ([CHR 0x0A] @ ''boom'' @ [CHR 0x0A])],
      Inr ())"
    by (simp add: red_boom)
  have returned: "runBuild plain_project [app_input] [config_option]
      (watchModeOf [config_option]) False None =
     ([LoaderLoad (Str ''nest-cli.json''),
       GetByConfigFilename (Str ''tsconfig.build.json''),
       DeleteOutDirIfEnabled (nest_configuration False ''webpack.config.js'') (Str ''api'')
         (Str ''build''),
       CopyAssets (nest_configuration False ''webpack.config.js'') (Str ''api'') (Str ''build''),
       CompilerRun (nest_configuration False ''webpack.config.js'')
         (Str ''tsconfig.build.json'') (Str ''api'') None],
      Inr Undefined)"
    by (simp only: w scenario_one_shot)
  note 3 = C5_handle_rethrows_only_rendering_errors [of plain_project "[app_input]" "[config_option]", THEN conjunct2,
      THEN conjunct2, THEN conjunct1, rule_format, OF returned]
  have symbol: "runBuild (failing_loader_project (Thrown (Symbol ''boom''))) [app_input]
      [config_option] (watchModeOf [config_option]) False None =
     ([LoaderLoad (Str ''nest-cli.json'')], Inl (Thrown (Symbol ''boom'')))"
    by (simp add: w run_defs stub_defs)
  have red: "chalk_red (failing_loader_project (Thrown (Symbol ''boom'')))
      (Thrown (Symbol ''boom'')) =
     Inl (TypeError ''Cannot convert a Symbol value to a string'')"
    by (simp add: stub_defs)
  from C5_handle_rethrows_only_rendering_errors [of "failing_loader_project (Thrown (Symbol ''boom''))" "[app_input]"
      "[config_option]", THEN conjunct1, rule_format, OF symbol]
  have 4: "handle (failing_loader_project (Thrown (Symbol ''boom''))) [app_input]
      [config_option] =
     ([LoaderLoad (Str ''nest-cli.json'')],
      Inl (TypeError ''Cannot convert a Symbol value to a string''))"
    by (simp add: red)
  have prepared: "runBuild_prepare (rejecting_compiler_project (Error (Str ''boom'')))
      [app_input] [config_option] =
     ([LoaderLoad (Str ''nest-cli.json''),
       GetByConfigFilename (Str ''tsconfig.build.json''),
       DeleteOutDirIfEnabled (nest_configuration False ''webpack.config.js'') (Str ''api'')
         (Str ''build''),
       CopyAssets (nest_configuration False ''webpack.config.js'') (Str ''api'') (Str ''build'')],
      Inr (nest_configuration False ''webpack.config.js'', Str ''api'',
           Str ''tsconfig.build.json'', Bool False))"
    by (simp add: run_defs stub_defs)
  have rejects: "compiler_run (rejecting_compiler_project (Error (Str ''boom'')))
     (nest_configuration False ''webpack.config.js'') (Str ''tsconfig.build.json'') (Str ''api'')
     None = Inr (ReturnedRejecting (Error (Str ''boom'')))"
    by (simp add: stub_defs)
  have "handle (rejecting_compiler_project (Error (Str ''boom''))) [app_input] [config_option] =
     ([LoaderLoad (Str ''nest-cli.json''),
       GetByConfigFilename (Str ''tsconfig.build.json''),
       DeleteOutDirIfEnabled (nest_configuration False ''webpack.config.js'') (Str ''api'')
         (Str ''build''),
       CopyAssets (nest_configuration False ''webpack.config.js'') (Str ''api'')
         (Str ''build'')] @
      [if watchModeOf [config_option]
       then WatchCompilerRun (nest_configuration False ''webpack.config.js'')
              (Str ''tsconfig.build.json'') (Str ''api'') None
       else CompilerRun (nest_configuration False ''webpack.config.js'')
              (Str ''tsconfig.build.json'') (Str ''api'') None],
      Inr ())"
    by (rule C5_handle_rethrows_only_rendering_errors
          [of "rejecting_compiler_project (Error (Str ''boom''))" "[app_input]"
            "[config_option]", THEN conjunct2, THEN conjunct2, THEN conjunct2, THEN conjunct2,
            rule_format, of _ _ _ _ "Bool False" "Error (Str ''boom'')"])
      (simp add: prepared rejects w)
  then have 5: "handle (rejecting_compiler_project (Error (Str ''boom''))) [app_input]
      [config_option] =
     ([LoaderLoad (Str ''nest-cli.json''),
       GetByConfigFilename (Str ''tsconfig.build.json''),
       DeleteOutDirIfEnabled (nest_configuration False ''webpack.config.js'') (Str ''api'')
         (Str ''build''),
       CopyAssets (nest_configuration False ''webpack.config.js'') (Str ''api'') (Str ''build''),
       CompilerRun (nest_configuration False ''webpack.config.js'')
         (Str ''tsconfig.build.json'') (Str ''api'') None],
      Inr ())"
    by (simp add: w)
  from thrown 1 other 2 returned 3 symbol red 4 rejects 5 show ?thesis by (intro conjI)
qed

text \<open>
  Claim C5 as stated fails when the thrown value, or the message of the thrown
  \<^verbatim>\<open>Error\<close>, is a symbol: the conversion in the \<^verbatim>\<open>catch\<close> block throws a \<^verbatim>\<open>TypeError\<close>,
  which \<^verbatim>\<open>handle\<close> propagates to its caller, and nothing is printed.
\<close>

theorem C5_handle_rethrows_conversion_error:
  "runBuild (failing_loader_project (Thrown (Symbol ''boom''))) [app_input] [config_option]
     (watchModeOf [config_option]) False None =
     ([LoaderLoad (Str ''nest-cli.json'')], Inl (Thrown (Symbol ''boom''))) \<and>
   handle (failing_loader_project (Thrown (Symbol ''boom''))) [app_input] [config_option] =
     ([LoaderLoad (Str ''nest-cli.json'')],
      Inl (TypeError ''Cannot convert a Symbol value to a string'')) \<and>
   runBuild (failing_loader_project (Error (Symbol ''boom''))) [app_input] [config_option]
     (watchModeOf [config_option]) False None =
     ([LoaderLoad (Str ''nest-cli.json'')], Inl (Error (Symbol ''boom''))) \<and>
   handle (failing_loader_project (Error (Symbol ''boom''))) [app_input] [config_option] =
     ([LoaderLoad (Str ''nest-cli.json'')],
      Inl (TypeError ''Cannot convert a Symbol value to a string''))"
  by (simp add: handle_def handle_catch_def watchModeOf_def run_defs stub_defs)



end
